theory Spec2Isabelle
  imports Complex_Main "HOL-Library.Char_ord" "HOL-Library.List_Lexorder"
begin

section \<open>PEOE partial charges (biotite.structure.charges)\<close>

subsection \<open>Floating-point values\<close>

text \<open>
  The charge buffer, the parameter array and the electronegativity arrays of
  \<^verbatim>\<open>partial_charges\<close> are NumPy arrays of floats. A float is modelled as
  either NaN or an exact real number: the NaN of the source is kept, with the
  propagation rules of the arithmetic (every operation with a NaN operand gives
  NaN, every comparison with a NaN operand is false), while rounding, overflow
  and the infinities of IEEE arithmetic are not represented.
\<close>

datatype float64 = NaN | Fin real

fun isnan :: "float64 \<Rightarrow> bool" where
  "isnan NaN = True"
| "isnan (Fin x) = False"

fun fadd :: "float64 \<Rightarrow> float64 \<Rightarrow> float64" where
  "fadd (Fin x) (Fin y) = Fin (x + y)"
| "fadd _ _ = NaN"

fun fsub :: "float64 \<Rightarrow> float64 \<Rightarrow> float64" where
  "fsub (Fin x) (Fin y) = Fin (x - y)"
| "fsub _ _ = NaN"

fun fmul :: "float64 \<Rightarrow> float64 \<Rightarrow> float64" where
  "fmul (Fin x) (Fin y) = Fin (x * y)"
| "fmul _ _ = NaN"

text \<open>
  Division by a zero float does not raise in NumPy; it gives an infinity or NaN.
  The model has no infinities and returns NaN there; \<open>divisor_nonzero\<close> below
  shows that the divisor of a charge transfer is never zero.
\<close>

fun fdiv :: "float64 \<Rightarrow> float64 \<Rightarrow> float64" where
  "fdiv (Fin x) (Fin y) = (if y = 0 then NaN else Fin (x / y))"
| "fdiv _ _ = NaN"

fun fgt :: "float64 \<Rightarrow> float64 \<Rightarrow> bool" where
  "fgt (Fin x) (Fin y) = (x > y)"
| "fgt _ _ = False"

fun feq :: "float64 \<Rightarrow> float64 \<Rightarrow> bool" where
  "feq (Fin x) (Fin y) = (x = y)"
| "feq _ _ = False"


subsection \<open>The parameter table\<close>

text \<open>
  \<^verbatim>\<open>EN_PARAMETERS\<close>: the nested dictionary, first level the element symbol,
  second level the number of binding partners.
\<close>

type_synonym en_triple = "real \<times> real \<times> real"

definition EN_PARAMETERS :: "(string \<times> (nat \<times> en_triple) list) list" where
  "EN_PARAMETERS =
    [(''H'', [(1, (7.17, 6.24, -0.56))]),
     (''C'', [(4, (7.98, 9.18, 1.88)),
              (3, (8.79, 9.18, 1.88)),
              (2, (10.39, 9.45, 0.73))]),
     (''N'', [(4, (11.54, 10.82, 1.36)),
              (3, (11.54, 10.82, 1.36)),
              (2, (12.87, 11.15, 0.85)),
              (1, (15.68, 11.7, -0.27))]),
     (''O'', [(2, (14.18, 12.92, 1.39)),
              (1, (17.07, 13.79, 0.47))]),
     (''S'', [(2, (10.14, 9.13, 1.38))]),
     (''F'', [(1, (14.66, 13.85, 2.31))]),
     (''Cl'', [(1, (11.00, 9.69, 1.35))]),
     (''Br'', [(1, (10.08, 8.47, 1.16))]),
     (''I'', [(1, (9.90, 7.96, 0.96))])]"


text \<open>
  \<^verbatim>\<open>EN_PARAMETERS[element][n]\<close>: \<open>None\<close> stands for the \<^verbatim>\<open>KeyError\<close> of either
  level.
\<close>

definition lookup_parameters :: "string \<Rightarrow> nat \<Rightarrow> en_triple option" where
  "lookup_parameters element n =
     (case map_of EN_PARAMETERS element of
        None \<Rightarrow> None
      | Some by_partners \<Rightarrow> map_of by_partners n)"

subsection \<open>Atom arrays, bond lists, warnings and errors\<close>

text \<open>
  A bond is a row \<open>(i, j, bond type)\<close> of \<^verbatim>\<open>BondList.as_array()\<close>. Of an
  \<^verbatim>\<open>AtomArray\<close> the function reads the element annotation, the bond list
  (\<open>None\<close> when no \<^verbatim>\<open>BondList\<close> is associated) and the attribute
  \<^verbatim>\<open>charges\<close> (\<open>None\<close> when reading it raises \<^verbatim>\<open>AttributeError\<close>).
  \<^verbatim>\<open>atom_array.shape[0]\<close> is the length of the element annotation.
\<close>

type_synonym bond = "nat \<times> nat \<times> nat"

record atom_array =
  element :: "string list"
  bonds :: "bond list option"
  charges_attr :: "float64 list option"

datatype error = AttributeError | IndexError | ValueError

text \<open>
  The two \<^verbatim>\<open>UserWarning\<close>s. The warning about missing parameters carries
  \<^verbatim>\<open>unique_list\<close>, which the message text joins with commas.
\<close>

datatype warning = NoChargesWarning | UnparametrizedWarning "string list"

text \<open>
  Modelled from the spec: \<^verbatim>\<open>BondList.get_bonds\<close> of biotite.structure.bonds,
  which is not among the sources. \<open>get_bonds bs i\<close> is the first component of
  its result, the atoms bonded to atom \<open>i\<close>: one neighbour for each bond that
  has \<open>i\<close> as an endpoint.
\<close>

fun get_bonds :: "bond list \<Rightarrow> nat \<Rightarrow> nat list" where
  "get_bonds [] a = []"
| "get_bonds ((i, j, t) # bs) a =
     (if i = a then j # get_bonds bs a
      else if j = a then i # get_bonds bs a
      else get_bonds bs a)"

subsection \<open>Parameter lookup for all atoms\<close>

text \<open>\<^verbatim>\<open>np.unique\<close> on a list of strings: the distinct entries, sorted.\<close>

definition unique :: "string list \<Rightarrow> string list" where
  "unique xs = sort (remdups xs)"

type_synonym parameter_row = "float64 \<times> float64 \<times> float64"

text \<open>
  One pass of the loop of \<^verbatim>\<open>_get_parameters\<close>: the row of the parameter
  array for one atom, NaN in all three columns after a \<^verbatim>\<open>KeyError\<close>.
\<close>

definition parameter_row :: "string \<Rightarrow> nat \<Rightarrow> parameter_row" where
  "parameter_row e n =
     (case lookup_parameters e n of
        Some (a, b, c) \<Rightarrow> (Fin a, Fin b, Fin c)
      | None \<Rightarrow> (NaN, NaN, NaN))"

text \<open>
  \<^verbatim>\<open>_get_parameters\<close>. Both arguments have one entry per atom. The result is
  the parameter array together with the warnings emitted.
\<close>

definition get_parameters :: "string list \<Rightarrow> nat list \<Rightarrow> parameter_row list \<times> warning list" where
  "get_parameters elements amount_of_binding_partners =
     (let atoms = zip elements amount_of_binding_partners;
          parameters = map (\<lambda>(e, n). parameter_row e n) atoms;
          list_of_unparametrized_elements =
            map fst (filter (\<lambda>(e, n). lookup_parameters e n = None) atoms);
          has_key_error = (list_of_unparametrized_elements \<noteq> [])
      in (parameters,
          if has_key_error
          then [UnparametrizedWarning (unique list_of_unparametrized_elements)]
          else []))"

subsection \<open>Electronegativities\<close>

text \<open>
  \<^verbatim>\<open>en_values\<close>: the row sum of \<^verbatim>\<open>parameters * charge_array\<close>, where the row
  of \<^verbatim>\<open>charge_array\<close> for an atom of charge \<open>q\<close> is \<open>(1, q, q\<^sup>2)\<close>.
\<close>

fun en_value :: "parameter_row \<Rightarrow> float64 \<Rightarrow> float64" where
  "en_value (a, b, c) q =
     fadd (fadd (fmul a (Fin 1)) (fmul b q)) (fmul c (fmul q q))"

text \<open>
  \<^verbatim>\<open>pos_en_values\<close>: the row sum of the parameters, with the value 12.85
  replaced by 20.02.
\<close>

fun pos_en_value :: "parameter_row \<Rightarrow> float64" where
  "pos_en_value (a, b, c) =
     (let s = fadd (fadd a b) c
      in if feq s (Fin 12.85) then Fin 20.02 else s)"

subsection \<open>The charge transfer over one bond\<close>

text \<open>
  The body of the loop over \<^verbatim>\<open>atom_array.bonds.as_array()\<close>. Reading
  \<^verbatim>\<open>en_values[[i, j]]\<close> with an index beyond the array raises
  \<^verbatim>\<open>IndexError\<close>. The charge buffer has the length of \<open>en_values\<close>.
\<close>

text \<open>
  The divisor of the transfer over the bond \<open>(i, j)\<close> and the charge
  transferred.
\<close>

definition divisor :: "float64 list \<Rightarrow> float64 list \<Rightarrow> nat \<Rightarrow> nat \<Rightarrow> float64" where
  "divisor en_values pos_en_values i j =
     (if fgt (en_values ! j) (en_values ! i)
      then pos_en_values ! i
      else pos_en_values ! j)"

definition charge_transfer ::
  "float64 list \<Rightarrow> float64 list \<Rightarrow> real \<Rightarrow> nat \<Rightarrow> nat \<Rightarrow> float64" where
  "charge_transfer en_values pos_en_values damping i j =
     fmul (fdiv (fsub (en_values ! j) (en_values ! i)) (divisor en_values pos_en_values i j))
          (Fin damping)"

definition bond_step ::
  "float64 list \<Rightarrow> float64 list \<Rightarrow> real \<Rightarrow> bond \<Rightarrow> float64 list \<Rightarrow> error + float64 list" where
  "bond_step en_values pos_en_values damping b charges =
     (case b of (i, j, t) \<Rightarrow>
        if length en_values \<le> i \<or> length en_values \<le> j then Inl IndexError
        else if isnan (en_values ! i) \<or> isnan (en_values ! j) then
          (if isnan (en_values ! i) \<and> isnan (en_values ! j)
           then Inr ((charges[i := NaN])[j := NaN])
           else if isnan (en_values ! i)
           then Inr (charges[i := NaN])
           else Inr (charges[j := NaN]))
        else
          (let delta = charge_transfer en_values pos_en_values damping i j;
               charges1 = charges[i := fadd (charges ! i) delta];
               charges2 = charges1[j := fsub (charges1 ! j) delta]
           in Inr charges2))"

fun bond_loop ::
  "float64 list \<Rightarrow> float64 list \<Rightarrow> real \<Rightarrow> bond list \<Rightarrow> float64 list \<Rightarrow> error + float64 list" where
  "bond_loop en_values pos_en_values damping [] charges = Inr charges"
| "bond_loop en_values pos_en_values damping (b # bs) charges =
     (case bond_step en_values pos_en_values damping b charges of
        Inl e \<Rightarrow> Inl e
      | Inr charges' \<Rightarrow> bond_loop en_values pos_en_values damping bs charges')"

subsection \<open>The iteration\<close>

text \<open>
  One iteration step after the damping factor has been halved. Joining the
  column of charges to the column of ones raises \<^verbatim>\<open>ValueError\<close> when the
  charge buffer does not have one entry per atom.
\<close>

definition iteration_step ::
  "parameter_row list \<Rightarrow> bond list \<Rightarrow> real \<Rightarrow> float64 list \<Rightarrow> error + float64 list" where
  "iteration_step parameters bs damping charges =
     (if length charges \<noteq> length parameters then Inl ValueError
      else
        (let en_values = map (\<lambda>(p, q). en_value p q) (zip parameters charges);
             pos_en_values = map pos_en_value parameters
         in bond_loop en_values pos_en_values damping bs charges))"

text \<open>
  The loop \<^verbatim>\<open>for _ in range(iteration_step_num)\<close>, with the number of steps
  still to run, the running damping factor and the charge buffer.
\<close>

fun iteration_loop ::
  "nat \<Rightarrow> parameter_row list \<Rightarrow> bond list \<Rightarrow> real \<Rightarrow> float64 list \<Rightarrow> error + float64 list" where
  "iteration_loop 0 parameters bs damping charges = Inr charges"
| "iteration_loop (Suc k) parameters bs damping charges =
     (let damping' = damping * 0.5
      in case iteration_step parameters bs damping' charges of
           Inl e \<Rightarrow> Inl e
         | Inr charges' \<Rightarrow> iteration_loop k parameters bs damping' charges')"

subsection \<open>partial\_charges\<close>

text \<open>
  The initial charge buffer: the argument, else the attribute of the atom
  array, else zeros with a warning. The buffer is an array of floats, as
  \<^verbatim>\<open>np.zeros\<close> gives it; an array of integers, which would truncate
  every transfer on assignment, is not modelled.
\<close>

definition initial_charges :: "atom_array \<Rightarrow> float64 list option \<Rightarrow> float64 list \<times> warning list" where
  "initial_charges atoms charges =
     (case charges of
        Some cs \<Rightarrow> (cs, [])
      | None \<Rightarrow>
          (case charges_attr atoms of
             Some cs \<Rightarrow> (cs, [])
           | None \<Rightarrow> (replicate (length (element atoms)) (Fin 0), [NoChargesWarning])))"

text \<open>
  \<^verbatim>\<open>amount_of_binding_partners\<close>: for every atom the length of its list of
  bonded atoms.
\<close>

definition binding_partners :: "atom_array \<Rightarrow> bond list \<Rightarrow> nat list" where
  "binding_partners atoms bs =
     map (\<lambda>i. length (get_bonds bs i)) [0..<length (element atoms)]"

text \<open>
  \<^verbatim>\<open>partial_charges(atom_array, iteration_step_num, charges)\<close>. The result is
  the list of warnings emitted, in order, and either the error raised or the
  returned charges. \<^verbatim>\<open>range\<close> of a negative number is empty.
\<close>

definition partial_charges ::
  "atom_array \<Rightarrow> int \<Rightarrow> float64 list option \<Rightarrow> warning list \<times> (error + float64 list)" where
  "partial_charges atoms iteration_step_num charges =
     (case bonds atoms of
        None \<Rightarrow> ([], Inl AttributeError)
      | Some bs \<Rightarrow>
          (let (charges0, w1) = initial_charges atoms charges;
               (parameters, w2) = get_parameters (element atoms) (binding_partners atoms bs)
           in (w1 @ w2,
               iteration_loop (nat iteration_step_num) parameters bs 1 charges0)))"

subsection \<open>Inputs that respect the invariants of the input types\<close>

text \<open>
  A \<^verbatim>\<open>BondList\<close> associated with an atom array only refers to atoms of
  the array, and a charge array has one entry per atom.
\<close>

definition bonds_in_range :: "bond list \<Rightarrow> nat \<Rightarrow> bool" where
  "bonds_in_range bs n = list_all (\<lambda>(i, j, t). i < n \<and> j < n) bs"

definition well_formed :: "atom_array \<Rightarrow> bond list \<Rightarrow> float64 list option \<Rightarrow> bool" where
  "well_formed atoms bs charges \<longleftrightarrow>
     bonds_in_range bs (length (element atoms)) \<and>
     length (fst (initial_charges atoms charges)) = length (element atoms)"

text \<open>
  An atom, given by its index, is parametrized when the table has an entry for
  its element and its number of binding partners.
\<close>

definition parametrized :: "atom_array \<Rightarrow> bond list \<Rightarrow> nat \<Rightarrow> bool" where
  "parametrized atoms bs i \<longleftrightarrow>
     lookup_parameters (element atoms ! i) (length (get_bonds bs i)) \<noteq> None"

subsection \<open>The iteration as the specification words it\<close>


subsection \<open>Auxiliary notions for the proofs\<close>

text \<open>
  A row of the parameter array is either all NaN or holds three numbers with a
  positive sum; every row that \<open>get_parameters\<close> builds is of this kind.
\<close>

definition row_ok :: "parameter_row \<Rightarrow> bool" where
  "row_ok p \<longleftrightarrow>
     p = (NaN, NaN, NaN) \<or> (\<exists>a b c. p = (Fin a, Fin b, Fin c) \<and> 0 < a + b + c)"


text \<open>The fluoromethane of the docstring: C1, F1, H1, H2, H3, the carbon bonded to all.\<close>

definition fluoromethane :: atom_array where
  "fluoromethane =
     \<lparr>element = [''C'', ''F'', ''H'', ''H'', ''H''],
      bonds = Some [(0, 1, 1), (0, 2, 1), (0, 3, 1), (0, 4, 1)],
      charges_attr = None\<rparr>"

text \<open>Hydrogen fluoride beside an argon atom without bonds.\<close>

definition hf_and_argon :: atom_array where
  "hf_and_argon =
     \<lparr>element = [''H'', ''F'', ''Ar''], bonds = Some [(0, 1, 1)], charges_attr = None\<rparr>"

text \<open>
  The parameter array and the bond list of fluoromethane, and closeness of
  returned charges to reference values.
\<close>

definition fm_parameters :: "parameter_row list" where
  "fm_parameters =
     [(Fin 7.98, Fin 9.18, Fin 1.88), (Fin 14.66, Fin 13.85, Fin 2.31),
      (Fin 7.17, Fin 6.24, Fin (- 0.56)), (Fin 7.17, Fin 6.24, Fin (- 0.56)),
      (Fin 7.17, Fin 6.24, Fin (- 0.56))]"

definition fm_bonds :: "bond list" where
  "fm_bonds = [(0, 1, 1), (0, 2, 1), (0, 3, 1), (0, 4, 1)]"

definition close_to :: "real \<Rightarrow> float64 \<Rightarrow> real \<Rightarrow> bool" where
  "close_to eps q r = (case q of NaN \<Rightarrow> False | Fin x \<Rightarrow> abs (x - r) \<le> eps)"

definition charges_close_to :: "real \<Rightarrow> error + float64 list \<Rightarrow> real list \<Rightarrow> bool" where
  "charges_close_to eps res rs =
     (case res of Inl e \<Rightarrow> False | Inr cs \<Rightarrow> list_all2 (close_to eps) cs rs)"

section \<open>Properties\<close>

subsection \<open>Floats\<close>

lemma isnan_iff: "isnan x \<longleftrightarrow> x = NaN"
  by (cases x) simp_all

lemma not_isnan_iff: "\<not> isnan x \<longleftrightarrow> (\<exists>r. x = Fin r)"
  by (cases x) simp_all


subsection \<open>The table\<close>

lemma table_entries:
  "lookup_parameters e n = Some p \<Longrightarrow>
     (e, n, p) \<in> {(''H'', 1, (7.17, 6.24, -0.56)),
       (''C'', 4, (7.98, 9.18, 1.88)), (''C'', 3, (8.79, 9.18, 1.88)),
       (''C'', 2, (10.39, 9.45, 0.73)),
       (''N'', 4, (11.54, 10.82, 1.36)), (''N'', 3, (11.54, 10.82, 1.36)),
       (''N'', 2, (12.87, 11.15, 0.85)), (''N'', 1, (15.68, 11.7, -0.27)),
       (''O'', 2, (14.18, 12.92, 1.39)), (''O'', 1, (17.07, 13.79, 0.47)),
       (''S'', 2, (10.14, 9.13, 1.38)), (''F'', 1, (14.66, 13.85, 2.31)),
       (''Cl'', 1, (11.00, 9.69, 1.35)), (''Br'', 1, (10.08, 8.47, 1.16)),
       (''I'', 1, (9.90, 7.96, 0.96))}"
  unfolding lookup_parameters_def EN_PARAMETERS_def
  by (auto split: option.splits if_splits)

lemma table_sum_positive:
  assumes "lookup_parameters e n = Some (a, b, c)"
  shows "0 < a + b + c"
  using table_entries[OF assms] by auto

lemma table_no_valence_zero: "lookup_parameters e 0 = None"
proof (cases "lookup_parameters e 0")
  case None
  then show ?thesis .
next
  case (Some p)
  from table_entries[OF Some] show ?thesis by auto
qed

lemma table_hydrogen_only:
  assumes "lookup_parameters e n = Some (a, b, c)" and "a + b + c = 12.85"
  shows "e = ''H'' \<and> n = 1"
  using table_entries[OF assms(1)] assms(2) by auto

lemma parameter_row_cases:
  obtains (missing) "lookup_parameters e n = None" "parameter_row e n = (NaN, NaN, NaN)"
  | (found) a b c where "lookup_parameters e n = Some (a, b, c)"
      "parameter_row e n = (Fin a, Fin b, Fin c)" "0 < a + b + c"
proof (cases "lookup_parameters e n")
  case None
  then show ?thesis using missing by (simp add: parameter_row_def)
next
  case (Some p)
  obtain a b c where p: "p = (a, b, c)" by (cases p)
  show ?thesis
    using found[of a b c] Some table_sum_positive[of e n a b c]
    by (simp add: parameter_row_def p)
qed


subsection \<open>The parameter array\<close>

lemma get_parameters_length:
  "length (fst (get_parameters es ns)) = min (length es) (length ns)"
  by (simp add: get_parameters_def Let_def)

lemma get_parameters_nth:
  "i < length es \<Longrightarrow> i < length ns \<Longrightarrow>
   fst (get_parameters es ns) ! i = parameter_row (es ! i) (ns ! i)"
  by (simp add: get_parameters_def Let_def)

lemma binding_partners_length [simp]:
  "length (binding_partners atoms bs) = length (element atoms)"
  by (simp add: binding_partners_def)

lemma binding_partners_nth [simp]:
  "i < length (element atoms) \<Longrightarrow> binding_partners atoms bs ! i = length (get_bonds bs i)"
  by (simp add: binding_partners_def)

lemma parameters_length:
  "length (fst (get_parameters (element atoms) (binding_partners atoms bs))) =
     length (element atoms)"
  by (simp add: get_parameters_length)

lemma parameters_nth:
  "i < length (element atoms) \<Longrightarrow>
   fst (get_parameters (element atoms) (binding_partners atoms bs)) ! i =
     parameter_row (element atoms ! i) (length (get_bonds bs i))"
  by (simp add: get_parameters_nth)

subsection \<open>Electronegativities\<close>

lemma en_value_Fin:
  "en_value (Fin a, Fin b, Fin c) (Fin q) = Fin (a + b * q + c * (q * q))"
  by simp

lemma en_value_NaN_charge: "en_value p NaN = NaN"
  by (cases p) (auto elim: fmul.elims fadd.elims)

lemma pos_en_value_Fin:
  "pos_en_value (Fin a, Fin b, Fin c) =
     Fin (if a + b + c = 12.85 then 20.02 else a + b + c)"
  by (simp add: Let_def)

lemma pos_en_value_ok:
  assumes "row_ok p" and "p \<noteq> (NaN, NaN, NaN)"
  shows "\<exists>x. pos_en_value p = Fin x \<and> 0 < x"
proof -
  from assms obtain a b c where p: "p = (Fin a, Fin b, Fin c)" and s: "0 < a + b + c"
    unfolding row_ok_def by auto
  show ?thesis
  proof (cases "a + b + c = 12.85")
    case True
    then have "pos_en_value p = Fin 20.02 \<and> (0::real) < 20.02"
      unfolding p pos_en_value_Fin by simp
    then show ?thesis by blast
  next
    case False
    then have "pos_en_value p = Fin (a + b + c)" unfolding p pos_en_value_Fin by simp
    then show ?thesis using s by blast
  qed
qed


text \<open>
  In the branch of the charge transfer both electronegativities are numbers, so
  both atoms have table rows and the divisor is a positive number.
\<close>

lemma divisor_nonzero:
  assumes "i < length ps" and "j < length ps" and "length c = length ps"
    and "\<forall>p \<in> set ps. row_ok p"
    and "\<not> isnan (map (\<lambda>(p, q). en_value p q) (zip ps c) ! i)"
    and "\<not> isnan (map (\<lambda>(p, q). en_value p q) (zip ps c) ! j)"
  shows "\<exists>x. divisor (map (\<lambda>(p, q). en_value p q) (zip ps c)) (map pos_en_value ps) i j = Fin x
             \<and> 0 < x"
proof -
  have "row_ok (ps ! i)" "row_ok (ps ! j)" using assms by auto
  moreover have "ps ! i \<noteq> (NaN, NaN, NaN)" "ps ! j \<noteq> (NaN, NaN, NaN)"
    using assms by auto
  ultimately show ?thesis
    using assms(1,2) pos_en_value_ok[of "ps ! i"] pos_en_value_ok[of "ps ! j"]
    by (auto simp: divisor_def)
qed

lemma charge_transfer_finite:
  assumes "i < length ps" and "j < length ps" and "length c = length ps"
    and "\<forall>p \<in> set ps. row_ok p"
    and "\<not> isnan (map (\<lambda>(p, q). en_value p q) (zip ps c) ! i)"
    and "\<not> isnan (map (\<lambda>(p, q). en_value p q) (zip ps c) ! j)"
  shows "\<exists>r. charge_transfer (map (\<lambda>(p, q). en_value p q) (zip ps c))
               (map pos_en_value ps) d i j = Fin r"
proof -
  let ?en = "map (\<lambda>(p, q). en_value p q) (zip ps c)"
  from divisor_nonzero[OF assms] obtain x
    where x: "divisor ?en (map pos_en_value ps) i j = Fin x" and "0 < x" by blast
  moreover from assms(5,6) obtain ei ej where "?en ! i = Fin ei" "?en ! j = Fin ej"
    by (auto simp: not_isnan_iff)
  ultimately show ?thesis by (simp add: charge_transfer_def)
qed

subsection \<open>Frame and length of the loops\<close>

lemma bond_step_length:
  "bond_step en pos d b c = Inr c' \<Longrightarrow> length c' = length c"
  by (auto simp: bond_step_def Let_def split: prod.splits if_splits)

lemma bond_loop_length:
  "bond_loop en pos d bs c = Inr c' \<Longrightarrow> length c' = length c"
proof (induction bs arbitrary: c)
  case Nil
  then show ?case by simp
next
  case (Cons b bs)
  then show ?case
    by (auto split: sum.splits dest: bond_step_length)
qed

lemma bond_step_other:
  "bond_step en pos d (i, j, t) c = Inr c' \<Longrightarrow> k \<noteq> i \<Longrightarrow> k \<noteq> j \<Longrightarrow> c' ! k = c ! k"
  by (auto simp: bond_step_def Let_def split: if_splits)

lemma get_bonds_Nil_iff:
  "get_bonds bs k = [] \<longleftrightarrow> (\<forall>(i, j, t) \<in> set bs. i \<noteq> k \<and> j \<noteq> k)"
  by (induction bs k rule: get_bonds.induct) auto

lemma bond_loop_untouched:
  "bond_loop en pos d bs c = Inr c' \<Longrightarrow> get_bonds bs k = [] \<Longrightarrow> c' ! k = c ! k"
proof (induction bs arbitrary: c)
  case Nil
  then show ?case by simp
next
  case (Cons b bs)
  obtain i j t where b: "b = (i, j, t)" by (cases b)
  from Cons.prems(2) have ik: "i \<noteq> k" "j \<noteq> k" and rest: "get_bonds bs k = []"
    by (auto simp: b split: if_splits)
  from Cons.prems(1) obtain c1 where s: "bond_step en pos d (i, j, t) c = Inr c1"
    and l: "bond_loop en pos d bs c1 = Inr c'"
    by (auto simp: b split: sum.splits)
  have "c' ! k = c1 ! k" using Cons.IH[OF l rest] .
  also have "c1 ! k = c ! k" using bond_step_other[OF s] ik by auto
  finally show ?case .
qed

lemma iteration_step_untouched:
  "iteration_step ps bs d c = Inr c' \<Longrightarrow> get_bonds bs k = [] \<Longrightarrow> c' ! k = c ! k"
  by (auto simp: iteration_step_def Let_def split: if_splits dest: bond_loop_untouched)

lemma iteration_step_length:
  "iteration_step ps bs d c = Inr c' \<Longrightarrow> length c' = length c"
  by (auto simp: iteration_step_def Let_def split: if_splits dest: bond_loop_length)

lemma iteration_step_length_parameters:
  "iteration_step ps bs d c = Inr c' \<Longrightarrow> length c = length ps"
  by (auto simp: iteration_step_def split: if_splits)

lemma iteration_loop_untouched:
  "iteration_loop n ps bs d c = Inr c' \<Longrightarrow> get_bonds bs k = [] \<Longrightarrow> c' ! k = c ! k"
proof (induction n arbitrary: d c)
  case 0
  then show ?case by simp
next
  case (Suc n)
  from Suc.prems(1) obtain c1 where s: "iteration_step ps bs (d * 0.5) c = Inr c1"
    and l: "iteration_loop n ps bs (d * 0.5) c1 = Inr c'"
    by (auto simp: Let_def split: sum.splits)
  show ?case
    using Suc.IH[OF l Suc.prems(2)] iteration_step_untouched[OF s Suc.prems(2)] by simp
qed

lemma iteration_loop_length:
  "iteration_loop n ps bs d c = Inr c' \<Longrightarrow> length c' = length c"
proof (induction n arbitrary: d c)
  case 0
  then show ?case by simp
next
  case (Suc n)
  then show ?case
    by (auto simp: Let_def split: sum.splits dest: iteration_step_length)
qed

subsection \<open>Well-formed input gives a result\<close>

lemma bond_step_returns:
  "i < length en \<Longrightarrow> j < length en \<Longrightarrow> \<exists>c'. bond_step en pos d (i, j, t) c = Inr c'"
  by (simp add: bond_step_def Let_def)

lemma bond_loop_returns:
  "bonds_in_range bs (length en) \<Longrightarrow> \<exists>c'. bond_loop en pos d bs c = Inr c'"
proof (induction bs arbitrary: c)
  case Nil
  show ?case by simp
next
  case (Cons b bs)
  obtain i j t where b: "b = (i, j, t)" by (cases b)
  from Cons.prems have r: "i < length en" "j < length en"
    and rest: "bonds_in_range bs (length en)"
    by (simp_all add: bonds_in_range_def b)
  from bond_step_returns[OF r] obtain c1 where "bond_step en pos d (i, j, t) c = Inr c1"
    by blast
  then show ?case using Cons.IH[OF rest, of c1] by (simp add: b)
qed

lemma iteration_step_returns:
  assumes "length c = length ps" and "bonds_in_range bs (length ps)"
  shows "\<exists>c'. iteration_step ps bs d c = Inr c'"
  using assms bond_loop_returns[of bs "map (\<lambda>(p, q). en_value p q) (zip ps c)"]
  by (simp add: iteration_step_def Let_def)

lemma iteration_loop_returns:
  assumes "length c = length ps" and "bonds_in_range bs (length ps)"
  shows "\<exists>c'. iteration_loop n ps bs d c = Inr c'"
  using assms(1)
proof (induction n arbitrary: d c)
  case 0
  show ?case by simp
next
  case (Suc n)
  from iteration_step_returns[OF Suc.prems assms(2)]
  obtain c1 where s: "iteration_step ps bs (d * 0.5) c = Inr c1" by blast
  have "length c1 = length ps" using iteration_step_length[OF s] Suc.prems by simp
  from Suc.IH[OF this, of "d * 0.5"] show ?case using s by (simp add: Let_def)
qed

lemma partial_charges_unfold:
  assumes "bonds atoms = Some bs"
  shows "partial_charges atoms n charges =
           (snd (initial_charges atoms charges) @
              snd (get_parameters (element atoms) (binding_partners atoms bs)),
            iteration_loop (nat n)
              (fst (get_parameters (element atoms) (binding_partners atoms bs))) bs 1
              (fst (initial_charges atoms charges)))"
  using assms by (simp add: partial_charges_def Let_def split: prod.splits)

lemma partial_charges_returns:
  assumes "bonds atoms = Some bs" and "well_formed atoms bs charges"
  shows "\<exists>ws cs. partial_charges atoms n charges = (ws, Inr cs)"
proof -
  let ?ps = "fst (get_parameters (element atoms) (binding_partners atoms bs))"
  have "length (fst (initial_charges atoms charges)) = length ?ps"
    and "bonds_in_range bs (length ?ps)"
    using assms(2) by (simp_all add: well_formed_def parameters_length)
  from iteration_loop_returns[OF this]
  show ?thesis unfolding partial_charges_unfold[OF assms(1)] by blast
qed

subsection \<open>The damping factor\<close>


subsection \<open>Charges of atoms with a number as electronegativity stay numbers\<close>



lemma en_values_nth:
  assumes "length c = length ps" and "k < length ps"
  shows "map (\<lambda>(p, q). en_value p q) (zip ps c) ! k = en_value (ps ! k) (c ! k)"
  using assms by simp




lemma parametrized_row:
  assumes "i < length (element atoms)"
  shows "parametrized atoms bs i \<longleftrightarrow>
         fst (get_parameters (element atoms) (binding_partners atoms bs)) ! i \<noteq> (NaN, NaN, NaN)"
  unfolding parameters_nth[OF assms] parametrized_def
  by (cases "element atoms ! i" "length (get_bonds bs i)" rule: parameter_row_cases) auto

subsection \<open>The sum of the charges\<close>











subsection \<open>The warning about missing parameters\<close>

lemma unique_set [simp]: "set (unique xs) = set xs"
  by (simp add: unique_def)

lemma unique_distinct [simp]: "distinct (unique xs)"
  by (simp add: unique_def)

lemma unique_sorted: "sorted (unique xs)"
  by (simp add: unique_def)

lemma unparametrized_elements_set:
  "set (map fst (filter (\<lambda>(e, n). lookup_parameters e n = None)
          (zip (element atoms) (binding_partners atoms bs)))) =
     {element atoms ! i | i. i < length (element atoms) \<and> \<not> parametrized atoms bs i}"
  (is "?l = ?r")
proof -
  have len: "length (zip (element atoms) (binding_partners atoms bs)) = length (element atoms)"
    by simp
  show ?thesis
  proof (intro set_eqI iffI)
    fix e assume "e \<in> ?l"
    then obtain n where m: "(e, n) \<in> set (zip (element atoms) (binding_partners atoms bs))"
      and none: "lookup_parameters e n = None"
      by auto
    from m obtain i where i: "i < length (element atoms)"
      and ei: "zip (element atoms) (binding_partners atoms bs) ! i = (e, n)"
      unfolding in_set_conv_nth len by blast
    from i ei have "e = element atoms ! i" "n = length (get_bonds bs i)" by simp_all
    with none i show "e \<in> ?r" by (auto simp: parametrized_def)
  next
    fix e assume "e \<in> ?r"
    then obtain i where i: "i < length (element atoms)" and e: "e = element atoms ! i"
      and np: "\<not> parametrized atoms bs i"
      by blast
    from np have none: "lookup_parameters (element atoms ! i) (length (get_bonds bs i)) = None"
      by (simp only: parametrized_def not_not)
    have "zip (element atoms) (binding_partners atoms bs) ! i = (e, length (get_bonds bs i))"
      using i e by simp
    then have "(e, length (get_bonds bs i)) \<in> set (zip (element atoms) (binding_partners atoms bs))"
      using i len by (metis nth_mem)
    with none e show "e \<in> ?l" by force
  qed
qed

lemma get_parameters_warnings:
  "snd (get_parameters (element atoms) (binding_partners atoms bs)) =
     (if \<exists>i<length (element atoms). \<not> parametrized atoms bs i
      then [UnparametrizedWarning (unique (map fst (filter (\<lambda>(e, n). lookup_parameters e n = None)
              (zip (element atoms) (binding_partners atoms bs)))))]
      else [])"
proof -
  let ?u = "map fst (filter (\<lambda>(e, n). lookup_parameters e n = None)
              (zip (element atoms) (binding_partners atoms bs)))"
  have "?u \<noteq> [] \<longleftrightarrow> set ?u \<noteq> {}" by (simp only: set_empty)
  also have "\<dots> \<longleftrightarrow> (\<exists>i<length (element atoms). \<not> parametrized atoms bs i)"
    unfolding unparametrized_elements_set by auto
  finally show ?thesis by (simp add: get_parameters_def Let_def)
qed

lemma initial_charges_warnings:
  "snd (initial_charges atoms charges) = [] \<or>
   snd (initial_charges atoms charges) = [NoChargesWarning]"
  by (simp add: initial_charges_def split: option.splits)

subsection \<open>Atoms without a table row are poisoned by their bonds\<close>

lemma bond_step_poisons:
  assumes "isnan (en ! k)" and "k < length c"
    and "bond_step en pos d (i, j, t) c = Inr c'"
    and "c ! k = NaN \<or> i = k \<or> j = k"
  shows "c' ! k = NaN"
  using assms
  by (cases "k = i"; cases "k = j")
     (auto simp: bond_step_def Let_def nth_list_update isnan_iff split: if_splits)

lemma bond_loop_poisons:
  assumes "isnan (en ! k)" and "k < length c"
    and "bond_loop en pos d bs c = Inr c'"
    and "c ! k = NaN \<or> get_bonds bs k \<noteq> []"
  shows "c' ! k = NaN"
  using assms(2-)
proof (induction bs arbitrary: c)
  case Nil
  then show ?case by simp
next
  case (Cons b bs)
  obtain i j t where b: "b = (i, j, t)" by (cases b)
  from Cons.prems(2) obtain c1 where s: "bond_step en pos d (i, j, t) c = Inr c1"
    and l: "bond_loop en pos d bs c1 = Inr c'"
    by (auto simp: b split: sum.splits)
  have len1: "k < length c1" using bond_step_length[OF s] Cons.prems(1) by simp
  show ?case
  proof (cases "c ! k = NaN \<or> i = k \<or> j = k")
    case True
    from bond_step_poisons[OF assms(1) Cons.prems(1) s True] have "c1 ! k = NaN" .
    with Cons.IH[OF len1 l] show ?thesis by simp
  next
    case False
    with Cons.prems(3) have "get_bonds bs k \<noteq> []" by (auto simp: b)
    with Cons.IH[OF len1 l] show ?thesis by simp
  qed
qed

lemma iteration_step_poisons:
  assumes "ps ! k = (NaN, NaN, NaN)" and "k < length ps"
    and "iteration_step ps bs d c = Inr c'"
    and "c ! k = NaN \<or> get_bonds bs k \<noteq> []"
  shows "c' ! k = NaN"
proof -
  let ?en = "map (\<lambda>(p, q). en_value p q) (zip ps c)"
  from assms(3) have len: "length c = length ps" by (rule iteration_step_length_parameters)
  from assms(3) have loop: "bond_loop ?en (map pos_en_value ps) d bs c = Inr c'"
    by (simp add: iteration_step_def len Let_def)
  have "isnan (?en ! k)" using assms(1,2) len by simp
  from bond_loop_poisons[OF this _ loop assms(4)] assms(2) len show ?thesis by simp
qed

lemma iteration_loop_poisons:
  assumes "ps ! k = (NaN, NaN, NaN)" and "k < length ps" and "get_bonds bs k \<noteq> []"
    and "iteration_loop n ps bs d c = Inr c'" and "0 < n"
  shows "c' ! k = NaN"
  using assms(4,5)
proof (induction n arbitrary: d c)
  case 0
  then show ?case by simp
next
  case (Suc n)
  from Suc.prems(1) obtain c1 where s: "iteration_step ps bs (d * 0.5) c = Inr c1"
    and l: "iteration_loop n ps bs (d * 0.5) c1 = Inr c'"
    by (auto simp: Let_def split: sum.splits)
  from iteration_step_poisons[OF assms(1,2) s] assms(3) have c1: "c1 ! k = NaN" by simp
  show ?case
  proof (cases n)
    case 0
    with l c1 show ?thesis by simp
  next
    case (Suc m)
    with Suc.IH[OF l] show ?thesis by simp
  qed
qed

subsection \<open>Evaluation on concrete molecules\<close>

lemmas eval_defs =
  partial_charges_def initial_charges_def get_parameters_def binding_partners_def
  parameter_row_def lookup_parameters_def EN_PARAMETERS_def unique_def iteration_step_def
  bond_step_def charge_transfer_def divisor_def Let_def upt_rec

lemma hf_and_argon_two_steps:
  "partial_charges hf_and_argon 2 (Some [Fin 0, Fin 0, Fin 3]) =
     ([UnparametrizedWarning [''Ar'']],
      Inr [Fin (87929925 / 374298496), Fin (- (87929925 / 374298496)), Fin 3])"
  by (simp add: hf_and_argon_def eval_defs numeral_2_eq_2)


subsection \<open>Fluoromethane: one iteration step in closed form\<close>

lemma fluoromethane_parameters:
  "get_parameters (element fluoromethane) (binding_partners fluoromethane fm_bonds) =
     (fm_parameters, [])"
  by (simp add: fluoromethane_def fm_bonds_def fm_parameters_def get_parameters_def
      binding_partners_def parameter_row_def lookup_parameters_def EN_PARAMETERS_def upt_rec)

lemma fluoromethane_bond_loop:
  assumes "eC < eF" and "e2 \<le> eC" and "e3 \<le> eC" and "e4 \<le> eC"
  shows "bond_loop [Fin eC, Fin eF, Fin e2, Fin e3, Fin e4]
           [Fin 19.04, Fin 30.82, Fin 20.02, Fin 20.02, Fin 20.02] d fm_bonds
           [Fin qC, Fin qF, Fin q2, Fin q3, Fin q4] =
         Inr [Fin (qC + (eF - eC) / 19.04 * d + (e2 - eC) / 20.02 * d
                     + (e3 - eC) / 20.02 * d + (e4 - eC) / 20.02 * d),
              Fin (qF - (eF - eC) / 19.04 * d),
              Fin (q2 - (e2 - eC) / 20.02 * d),
              Fin (q3 - (e3 - eC) / 20.02 * d),
              Fin (q4 - (e4 - eC) / 20.02 * d)]"
proof -
  have n: "\<not> eC < e2" "\<not> eC < e3" "\<not> eC < e4" using assms by simp_all
  show ?thesis
    using assms(1) n
    by (simp add: fm_bonds_def bond_step_def charge_transfer_def divisor_def Let_def)
qed

lemma fluoromethane_step:
  assumes "eC = 7.98 + 9.18 * qC + 1.88 * (qC * qC)"
    and "eF = 14.66 + 13.85 * qF + 2.31 * (qF * qF)"
    and "e2 = 7.17 + 6.24 * q2 - 0.56 * (q2 * q2)"
    and "e3 = 7.17 + 6.24 * q3 - 0.56 * (q3 * q3)"
    and "e4 = 7.17 + 6.24 * q4 - 0.56 * (q4 * q4)"
    and "eC < eF" and "e2 \<le> eC" and "e3 \<le> eC" and "e4 \<le> eC"
  shows "iteration_step fm_parameters fm_bonds d [Fin qC, Fin qF, Fin q2, Fin q3, Fin q4] =
         Inr [Fin (qC + (eF - eC) / 19.04 * d + (e2 - eC) / 20.02 * d
                     + (e3 - eC) / 20.02 * d + (e4 - eC) / 20.02 * d),
              Fin (qF - (eF - eC) / 19.04 * d),
              Fin (q2 - (e2 - eC) / 20.02 * d),
              Fin (q3 - (e3 - eC) / 20.02 * d),
              Fin (q4 - (e4 - eC) / 20.02 * d)]"
proof -
  have en: "map (\<lambda>(p, q). en_value p q)
              (zip fm_parameters [Fin qC, Fin qF, Fin q2, Fin q3, Fin q4]) =
            [Fin eC, Fin eF, Fin e2, Fin e3, Fin e4]"
    unfolding assms(1-5) by (simp add: fm_parameters_def)
  have pos: "map pos_en_value fm_parameters =
               [Fin 19.04, Fin 30.82, Fin 20.02, Fin 20.02, Fin 20.02]"
    by (simp add: fm_parameters_def Let_def)
  have len: "length [Fin qC, Fin qF, Fin q2, Fin q3, Fin q4] = length fm_parameters"
    by (simp add: fm_parameters_def)
  show ?thesis
    unfolding iteration_step_def Let_def en pos
    using len fluoromethane_bond_loop[OF assms(6-9)] by simp
qed

subsection \<open>Fluoromethane: enclosures of the charges after each step\<close>

text \<open>
  Exact evaluation squares the size of the fractions in every step. Instead,
  each step maps a box around the charges into a box around the next charges;
  the boxes have twelve decimals and a width below \<open>10\<^sup>-\<^sup>1\<^sup>0\<close>.
\<close>

lemma sq_bounds_pos:
  fixes q :: real
  assumes "0 \<le> l" and "l \<le> q" and "q \<le> u"
  shows "l * l \<le> q * q" and "q * q \<le> u * u"
  using assms by (auto intro: mult_mono)

lemma sq_bounds_neg:
  fixes q :: real
  assumes "u \<le> 0" and "l \<le> q" and "q \<le> u"
  shows "u * u \<le> q * q" and "q * q \<le> l * l"
  using sq_bounds_pos[of "- u" "- q" "- l"] assms by simp_all

lemma fm_box_1:
  fixes qC qF q2 q3 q4 d :: real
  assumes d: "d = 1 / 2"
    and C: "0 \<le> qC" "qC \<le> 0"
    and F: "0 \<le> qF" "qF \<le> 0"
    and H2: "0 \<le> q2" "q2 \<le> 0"
    and H3: "0 \<le> q3" "q3 \<le> 0"
    and H4: "0 \<le> q4" "q4 \<le> 0"
  shows "\<exists>rC rF r2 r3 r4.
           iteration_step fm_parameters fm_bonds d [Fin qC, Fin qF, Fin q2, Fin q3, Fin q4] =
             Inr [Fin rC, Fin rF, Fin r2, Fin r3, Fin r4]
           \<and> 0.114730857377 \<le> rC \<and> rC \<le> 0.114730857381
           \<and> - 0.175420168068 \<le> rF \<and> rF \<le> - 0.175420168067
           \<and> 0.020229770229 \<le> r2 \<and> r2 \<le> 0.02022977023
           \<and> 0.020229770229 \<le> r3 \<and> r3 \<le> 0.02022977023
           \<and> 0.020229770229 \<le> r4 \<and> r4 \<le> 0.02022977023"
proof -
  define eC where "eC = 7.98 + 9.18 * qC + 1.88 * (qC * qC)"
  define eF where "eF = 14.66 + 13.85 * qF + 2.31 * (qF * qF)"
  define e2 where "e2 = 7.17 + 6.24 * q2 - 0.56 * (q2 * q2)"
  define e3 where "e3 = 7.17 + 6.24 * q3 - 0.56 * (q3 * q3)"
  define e4 where "e4 = 7.17 + 6.24 * q4 - 0.56 * (q4 * q4)"
  have sC: "0 \<le> qC * qC" "qC * qC \<le> 0"
    using sq_bounds_pos[of "0" qC "0"] C by simp_all
  have sF: "0 \<le> qF * qF" "qF * qF \<le> 0"
    using sq_bounds_neg[of "0" "0" qF] F by simp_all
  have s2: "0 \<le> q2 * q2" "q2 * q2 \<le> 0"
    using sq_bounds_pos[of "0" q2 "0"] H2 by simp_all
  have s3: "0 \<le> q3 * q3" "q3 * q3 \<le> 0"
    using sq_bounds_pos[of "0" q3 "0"] H3 by simp_all
  have s4: "0 \<le> q4 * q4" "q4 * q4 \<le> 0"
    using sq_bounds_pos[of "0" q4 "0"] H4 by simp_all
  have bCl: "7.98 \<le> eC"
    unfolding eC_def using C sC by simp
  have bCu: "eC \<le> 7.98"
    unfolding eC_def using C sC by simp
  have bFl: "14.66 \<le> eF"
    unfolding eF_def using F sF by simp
  have bFu: "eF \<le> 14.66"
    unfolding eF_def using F sF by simp
  have b2l: "7.17 \<le> e2"
    unfolding e2_def using H2 s2 by simp
  have b2u: "e2 \<le> 7.17"
    unfolding e2_def using H2 s2 by simp
  have b3l: "7.17 \<le> e3"
    unfolding e3_def using H3 s3 by simp
  have b3u: "e3 \<le> 7.17"
    unfolding e3_def using H3 s3 by simp
  have b4l: "7.17 \<le> e4"
    unfolding e4_def using H4 s4 by simp
  have b4u: "e4 \<le> 7.17"
    unfolding e4_def using H4 s4 by simp
  have c1: "eC < eF" using bCu bFl by simp
  have c2: "e2 \<le> eC" using bCl b2u by simp
  have c3: "e3 \<le> eC" using bCl b3u by simp
  have c4: "e4 \<le> eC" using bCl b4u by simp
  note st = fluoromethane_step[OF eC_def eF_def e2_def e3_def e4_def c1 c2 c3 c4, of d]
  define tF where "tF = (eF - eC) / 19.04 * d"
  define t2 where "t2 = (e2 - eC) / 20.02 * d"
  define t3 where "t3 = (e3 - eC) / 20.02 * d"
  define t4 where "t4 = (e4 - eC) / 20.02 * d"
  have tF: "38.08 * tF = eF - eC" unfolding tF_def d by simp
  have t2: "40.04 * t2 = e2 - eC" unfolding t2_def d by simp
  have t3: "40.04 * t3 = e3 - eC" unfolding t3_def d by simp
  have t4: "40.04 * t4 = e4 - eC" unfolding t4_def d by simp
  have uFl: "0.175420168067 \<le> tF"
    using tF bCl bCu bFl bFu by simp
  have uFu: "tF \<le> 0.175420168068"
    using tF bCl bCu bFl bFu by simp
  have u2l: "- 0.02022977023 \<le> t2"
    using t2 bCl bCu b2l b2u by simp
  have u2u: "t2 \<le> - 0.020229770229"
    using t2 bCl bCu b2l b2u by simp
  have u3l: "- 0.02022977023 \<le> t3"
    using t3 bCl bCu b3l b3u by simp
  have u3u: "t3 \<le> - 0.020229770229"
    using t3 bCl bCu b3l b3u by simp
  have u4l: "- 0.02022977023 \<le> t4"
    using t4 bCl bCu b4l b4u by simp
  have u4u: "t4 \<le> - 0.020229770229"
    using t4 bCl bCu b4l b4u by simp
  have rCl: "0.114730857377 \<le> qC + tF + t2 + t3 + t4"
    using C uFl uFu u2l u2u u3l u3u u4l u4u by simp
  have rCu: "qC + tF + t2 + t3 + t4 \<le> 0.114730857381"
    using C uFl uFu u2l u2u u3l u3u u4l u4u by simp
  have rFl: "- 0.175420168068 \<le> qF - tF"
    using F uFl uFu by simp
  have rFu: "qF - tF \<le> - 0.175420168067"
    using F uFl uFu by simp
  have r2l: "0.020229770229 \<le> q2 - t2"
    using H2 u2l u2u by simp
  have r2u: "q2 - t2 \<le> 0.02022977023"
    using H2 u2l u2u by simp
  have r3l: "0.020229770229 \<le> q3 - t3"
    using H3 u3l u3u by simp
  have r3u: "q3 - t3 \<le> 0.02022977023"
    using H3 u3l u3u by simp
  have r4l: "0.020229770229 \<le> q4 - t4"
    using H4 u4l u4u by simp
  have r4u: "q4 - t4 \<le> 0.02022977023"
    using H4 u4l u4u by simp
  show ?thesis
    using st rCl rCu rFl rFu r2l r2u r3l r3u r4l r4u
    unfolding tF_def t2_def t3_def t4_def by blast
qed

lemma fm_box_2:
  fixes qC qF q2 q3 q4 d :: real
  assumes d: "d = 1 / 4"
    and C: "0.114730857377 \<le> qC" "qC \<le> 0.114730857381"
    and F: "- 0.175420168068 \<le> qF" "qF \<le> - 0.175420168067"
    and H2: "0.020229770229 \<le> q2" "q2 \<le> 0.02022977023"
    and H3: "0.020229770229 \<le> q3" "q3 \<le> 0.02022977023"
    and H4: "0.020229770229 \<le> q4" "q4 \<le> 0.02022977023"
  shows "\<exists>rC rF r2 r3 r4.
           iteration_step fm_parameters fm_bonds d [Fin qC, Fin qF, Fin q2, Fin q3, Fin q4] =
             Inr [Fin rC, Fin rF, Fin r2, Fin r3, Fin r4]
           \<and> 0.091311414589 \<le> rC \<and> rC \<le> 0.091311414597
           \<and> - 0.218008646355 \<le> rF \<and> rF \<le> - 0.218008646353
           \<and> 0.042232410586 \<le> r2 \<and> r2 \<le> 0.042232410588
           \<and> 0.042232410586 \<le> r3 \<and> r3 \<le> 0.042232410588
           \<and> 0.042232410586 \<le> r4 \<and> r4 \<le> 0.042232410588"
proof -
  define eC where "eC = 7.98 + 9.18 * qC + 1.88 * (qC * qC)"
  define eF where "eF = 14.66 + 13.85 * qF + 2.31 * (qF * qF)"
  define e2 where "e2 = 7.17 + 6.24 * q2 - 0.56 * (q2 * q2)"
  define e3 where "e3 = 7.17 + 6.24 * q3 - 0.56 * (q3 * q3)"
  define e4 where "e4 = 7.17 + 6.24 * q4 - 0.56 * (q4 * q4)"
  have sC: "0.013163169634461515320129 \<le> qC * qC" "qC * qC \<le> 0.013163169635379362179161"
    using sq_bounds_pos[of "0.114730857377" qC "0.114730857381"] C by simp_all
  have sF: "0.030772235364654526516489 \<le> qF * qF" "qF * qF \<le> 0.030772235365005366852624"
    using sq_bounds_neg[of "- 0.175420168067" "- 0.175420168068" qF] F by simp_all
  have s2: "0.000409243603518134712441 \<le> q2 * q2" "q2 * q2 \<le> 0.0004092436035585942529"
    using sq_bounds_pos[of "0.020229770229" q2 "0.02022977023"] H2 by simp_all
  have s3: "0.000409243603518134712441 \<le> q3 * q3" "q3 * q3 \<le> 0.0004092436035585942529"
    using sq_bounds_pos[of "0.020229770229" q3 "0.02022977023"] H3 by simp_all
  have s4: "0.000409243603518134712441 \<le> q4 * q4" "q4 * q4 \<le> 0.0004092436035585942529"
    using sq_bounds_pos[of "0.020229770229" q4 "0.02022977023"] H4 by simp_all
  have bCl: "9.057976029633 \<le> eC"
    unfolding eC_def using C sC by simp
  have bCu: "eC \<le> 9.057976029673"
    unfolding eC_def using C sC by simp
  have bFl: "12.30151453595 \<le> eF"
    unfolding eF_def using F sF by simp
  have bFu: "eF \<le> 12.301514535966"
    unfolding eF_def using F sF by simp
  have b2l: "7.29600458981 \<le> e2"
    unfolding e2_def using H2 s2 by simp
  have b2u: "e2 \<le> 7.296004589818"
    unfolding e2_def using H2 s2 by simp
  have b3l: "7.29600458981 \<le> e3"
    unfolding e3_def using H3 s3 by simp
  have b3u: "e3 \<le> 7.296004589818"
    unfolding e3_def using H3 s3 by simp
  have b4l: "7.29600458981 \<le> e4"
    unfolding e4_def using H4 s4 by simp
  have b4u: "e4 \<le> 7.296004589818"
    unfolding e4_def using H4 s4 by simp
  have c1: "eC < eF" using bCu bFl by simp
  have c2: "e2 \<le> eC" using bCl b2u by simp
  have c3: "e3 \<le> eC" using bCl b3u by simp
  have c4: "e4 \<le> eC" using bCl b4u by simp
  note st = fluoromethane_step[OF eC_def eF_def e2_def e3_def e4_def c1 c2 c3 c4, of d]
  define tF where "tF = (eF - eC) / 19.04 * d"
  define t2 where "t2 = (e2 - eC) / 20.02 * d"
  define t3 where "t3 = (e3 - eC) / 20.02 * d"
  define t4 where "t4 = (e4 - eC) / 20.02 * d"
  have tF: "76.16 * tF = eF - eC" unfolding tF_def d by simp
  have t2: "80.08 * t2 = e2 - eC" unfolding t2_def d by simp
  have t3: "80.08 * t3 = e3 - eC" unfolding t3_def d by simp
  have t4: "80.08 * t4 = e4 - eC" unfolding t4_def d by simp
  have uFl: "0.042588478286 \<le> tF"
    using tF bCl bCu bFl bFu by simp
  have uFu: "tF \<le> 0.042588478287"
    using tF bCl bCu bFl bFu by simp
  have u2l: "- 0.022002640358 \<le> t2"
    using t2 bCl bCu b2l b2u by simp
  have u2u: "t2 \<le> - 0.022002640357"
    using t2 bCl bCu b2l b2u by simp
  have u3l: "- 0.022002640358 \<le> t3"
    using t3 bCl bCu b3l b3u by simp
  have u3u: "t3 \<le> - 0.022002640357"
    using t3 bCl bCu b3l b3u by simp
  have u4l: "- 0.022002640358 \<le> t4"
    using t4 bCl bCu b4l b4u by simp
  have u4u: "t4 \<le> - 0.022002640357"
    using t4 bCl bCu b4l b4u by simp
  have rCl: "0.091311414589 \<le> qC + tF + t2 + t3 + t4"
    using C uFl uFu u2l u2u u3l u3u u4l u4u by simp
  have rCu: "qC + tF + t2 + t3 + t4 \<le> 0.091311414597"
    using C uFl uFu u2l u2u u3l u3u u4l u4u by simp
  have rFl: "- 0.218008646355 \<le> qF - tF"
    using F uFl uFu by simp
  have rFu: "qF - tF \<le> - 0.218008646353"
    using F uFl uFu by simp
  have r2l: "0.042232410586 \<le> q2 - t2"
    using H2 u2l u2u by simp
  have r2u: "q2 - t2 \<le> 0.042232410588"
    using H2 u2l u2u by simp
  have r3l: "0.042232410586 \<le> q3 - t3"
    using H3 u3l u3u by simp
  have r3u: "q3 - t3 \<le> 0.042232410588"
    using H3 u3l u3u by simp
  have r4l: "0.042232410586 \<le> q4 - t4"
    using H4 u4l u4u by simp
  have r4u: "q4 - t4 \<le> 0.042232410588"
    using H4 u4l u4u by simp
  show ?thesis
    using st rCl rCu rFl rFu r2l r2u r3l r3u r4l r4u
    unfolding tF_def t2_def t3_def t4_def by blast
qed

lemma fm_box_3:
  fixes qC qF q2 q3 q4 d :: real
  assumes d: "d = 1 / 8"
    and C: "0.091311414589 \<le> qC" "qC \<le> 0.091311414597"
    and F: "- 0.218008646355 \<le> qF" "qF \<le> - 0.218008646353"
    and H2: "0.042232410586 \<le> q2" "q2 \<le> 0.042232410588"
    and H3: "0.042232410586 \<le> q3" "q3 \<le> 0.042232410588"
    and H4: "0.042232410586 \<le> q4" "q4 \<le> 0.042232410588"
  shows "\<exists>rC rF r2 r3 r4.
           iteration_step fm_parameters fm_bonds d [Fin qC, Fin qF, Fin q2, Fin q3, Fin q4] =
             Inr [Fin rC, Fin rF, Fin r2, Fin r3, Fin r4]
           \<and> 0.084208643553 \<le> rC \<and> rC \<le> 0.084208643568
           \<and> - 0.237155544954 \<le> rF \<and> rF \<le> - 0.237155544951
           \<and> 0.050982300462 \<le> r2 \<and> r2 \<le> 0.050982300466
           \<and> 0.050982300462 \<le> r3 \<and> r3 \<le> 0.050982300466
           \<and> 0.050982300462 \<le> r4 \<and> r4 \<le> 0.050982300466"
proof -
  define eC where "eC = 7.98 + 9.18 * qC + 1.88 * (qC * qC)"
  define eF where "eF = 14.66 + 13.85 * qF + 2.31 * (qF * qF)"
  define e2 where "e2 = 7.17 + 6.24 * q2 - 0.56 * (q2 * q2)"
  define e3 where "e3 = 7.17 + 6.24 * q3 - 0.56 * (q3 * q3)"
  define e4 where "e4 = 7.17 + 6.24 * q4 - 0.56 * (q4 * q4)"
  have sC: "0.008337774434244242038921 \<le> qC * qC" "qC * qC \<le> 0.008337774435705224672409"
    using sq_bounds_pos[of "0.091311414589" qC "0.091311414597"] C by simp_all
  have sF: "0.047527769884667420200609 \<le> qF * qF" "qF * qF \<le> 0.047527769885539454786025"
    using sq_bounds_neg[of "- 0.218008646353" "- 0.218008646355" qF] F by simp_all
  have s2: "0.001783576503904484863396 \<le> q2 * q2" "q2 * q2 \<le> 0.001783576504073414505744"
    using sq_bounds_pos[of "0.042232410586" q2 "0.042232410588"] H2 by simp_all
  have s3: "0.001783576503904484863396 \<le> q3 * q3" "q3 * q3 \<le> 0.001783576504073414505744"
    using sq_bounds_pos[of "0.042232410586" q3 "0.042232410588"] H3 by simp_all
  have s4: "0.001783576503904484863396 \<le> q4 * q4" "q4 * q4 \<le> 0.001783576504073414505744"
    using sq_bounds_pos[of "0.042232410586" q4 "0.042232410588"] H4 by simp_all
  have bCl: "8.833913801863 \<le> eC"
    unfolding eC_def using C sC by simp
  have bCu: "eC \<le> 8.83391380194"
    unfolding eC_def using C sC by simp
  have bFl: "11.750369396416 \<le> eF"
    unfolding eF_def using F sF by simp
  have bFu: "eF \<le> 11.750369396447"
    unfolding eF_def using F sF by simp
  have b2l: "7.432531439214 \<le> e2"
    unfolding e2_def using H2 s2 by simp
  have b2u: "e2 \<le> 7.432531439227"
    unfolding e2_def using H2 s2 by simp
  have b3l: "7.432531439214 \<le> e3"
    unfolding e3_def using H3 s3 by simp
  have b3u: "e3 \<le> 7.432531439227"
    unfolding e3_def using H3 s3 by simp
  have b4l: "7.432531439214 \<le> e4"
    unfolding e4_def using H4 s4 by simp
  have b4u: "e4 \<le> 7.432531439227"
    unfolding e4_def using H4 s4 by simp
  have c1: "eC < eF" using bCu bFl by simp
  have c2: "e2 \<le> eC" using bCl b2u by simp
  have c3: "e3 \<le> eC" using bCl b3u by simp
  have c4: "e4 \<le> eC" using bCl b4u by simp
  note st = fluoromethane_step[OF eC_def eF_def e2_def e3_def e4_def c1 c2 c3 c4, of d]
  define tF where "tF = (eF - eC) / 19.04 * d"
  define t2 where "t2 = (e2 - eC) / 20.02 * d"
  define t3 where "t3 = (e3 - eC) / 20.02 * d"
  define t4 where "t4 = (e4 - eC) / 20.02 * d"
  have tF: "152.32 * tF = eF - eC" unfolding tF_def d by simp
  have t2: "160.16 * t2 = e2 - eC" unfolding t2_def d by simp
  have t3: "160.16 * t3 = e3 - eC" unfolding t3_def d by simp
  have t4: "160.16 * t4 = e4 - eC" unfolding t4_def d by simp
  have uFl: "0.019146898598 \<le> tF"
    using tF bCl bCu bFl bFu by simp
  have uFu: "tF \<le> 0.019146898599"
    using tF bCl bCu bFl bFu by simp
  have u2l: "- 0.008749889878 \<le> t2"
    using t2 bCl bCu b2l b2u by simp
  have u2u: "t2 \<le> - 0.008749889876"
    using t2 bCl bCu b2l b2u by simp
  have u3l: "- 0.008749889878 \<le> t3"
    using t3 bCl bCu b3l b3u by simp
  have u3u: "t3 \<le> - 0.008749889876"
    using t3 bCl bCu b3l b3u by simp
  have u4l: "- 0.008749889878 \<le> t4"
    using t4 bCl bCu b4l b4u by simp
  have u4u: "t4 \<le> - 0.008749889876"
    using t4 bCl bCu b4l b4u by simp
  have rCl: "0.084208643553 \<le> qC + tF + t2 + t3 + t4"
    using C uFl uFu u2l u2u u3l u3u u4l u4u by simp
  have rCu: "qC + tF + t2 + t3 + t4 \<le> 0.084208643568"
    using C uFl uFu u2l u2u u3l u3u u4l u4u by simp
  have rFl: "- 0.237155544954 \<le> qF - tF"
    using F uFl uFu by simp
  have rFu: "qF - tF \<le> - 0.237155544951"
    using F uFl uFu by simp
  have r2l: "0.050982300462 \<le> q2 - t2"
    using H2 u2l u2u by simp
  have r2u: "q2 - t2 \<le> 0.050982300466"
    using H2 u2l u2u by simp
  have r3l: "0.050982300462 \<le> q3 - t3"
    using H3 u3l u3u by simp
  have r3u: "q3 - t3 \<le> 0.050982300466"
    using H3 u3l u3u by simp
  have r4l: "0.050982300462 \<le> q4 - t4"
    using H4 u4l u4u by simp
  have r4u: "q4 - t4 \<le> 0.050982300466"
    using H4 u4l u4u by simp
  show ?thesis
    using st rCl rCu rFl rFu r2l r2u r3l r3u r4l r4u
    unfolding tF_def t2_def t3_def t4_def by blast
qed

lemma fm_box_4:
  fixes qC qF q2 q3 q4 d :: real
  assumes d: "d = 1 / 16"
    and C: "0.084208643553 \<le> qC" "qC \<le> 0.084208643568"
    and F: "- 0.237155544954 \<le> qF" "qF \<le> - 0.237155544951"
    and H2: "0.050982300462 \<le> q2" "q2 \<le> 0.050982300466"
    and H3: "0.050982300462 \<le> q3" "q3 \<le> 0.050982300466"
    and H4: "0.050982300462 \<le> q4" "q4 \<le> 0.050982300466"
  shows "\<exists>rC rF r2 r3 r4.
           iteration_step fm_parameters fm_bonds d [Fin qC, Fin qF, Fin q2, Fin q3, Fin q4] =
             Inr [Fin rC, Fin rF, Fin r2, Fin r3, Fin r4]
           \<and> 0.081214286053 \<le> rC \<and> rC \<le> 0.081214286076
           \<and> - 0.24614632047 \<le> rF \<and> rF \<le> - 0.246146320465
           \<and> 0.054977344798 \<le> r2 \<and> r2 \<le> 0.054977344804
           \<and> 0.054977344798 \<le> r3 \<and> r3 \<le> 0.054977344804
           \<and> 0.054977344798 \<le> r4 \<and> r4 \<le> 0.054977344804"
proof -
  define eC where "eC = 7.98 + 9.18 * qC + 1.88 * (qC * qC)"
  define eF where "eF = 14.66 + 13.85 * qF + 2.31 * (qF * qF)"
  define e2 where "e2 = 7.17 + 6.24 * q2 - 0.56 * (q2 * q2)"
  define e3 where "e3 = 7.17 + 6.24 * q3 - 0.56 * (q3 * q3)"
  define e4 where "e4 = 7.17 + 6.24 * q4 - 0.56 * (q4 * q4)"
  have sC: "0.007091095649036208463809 \<le> qC * qC" "qC * qC \<le> 0.007091095651562467770624"
    using sq_bounds_pos[of "0.084208643553" qC "0.084208643568"] C by simp_all
  have sF: "0.056242752501005781592401 \<le> qF * qF" "qF * qF \<le> 0.056242752502428714862116"
    using sq_bounds_neg[of "- 0.237155544951" "- 0.237155544954" qF] F by simp_all
  have s2: "0.002599194960397645413444 \<le> q2 * q2" "q2 * q2 \<le> 0.002599194960805503817156"
    using sq_bounds_pos[of "0.050982300462" q2 "0.050982300466"] H2 by simp_all
  have s3: "0.002599194960397645413444 \<le> q3 * q3" "q3 * q3 \<le> 0.002599194960805503817156"
    using sq_bounds_pos[of "0.050982300462" q3 "0.050982300466"] H3 by simp_all
  have s4: "0.002599194960397645413444 \<le> q4 * q4" "q4 * q4 \<le> 0.002599194960805503817156"
    using sq_bounds_pos[of "0.050982300462" q4 "0.050982300466"] H4 by simp_all
  have bCl: "8.766366607636 \<le> eC"
    unfolding eC_def using C sC by simp
  have bCu: "eC \<le> 8.76636660778"
    unfolding eC_def using C sC by simp
  have bFl: "11.505316460664 \<le> eF"
    unfolding eF_def using F sF by simp
  have bFu: "eF \<le> 11.50531646071"
    unfolding eF_def using F sF by simp
  have b2l: "7.486674005704 \<le> e2"
    unfolding e2_def using H2 s2 by simp
  have b2u: "e2 \<le> 7.486674005731"
    unfolding e2_def using H2 s2 by simp
  have b3l: "7.486674005704 \<le> e3"
    unfolding e3_def using H3 s3 by simp
  have b3u: "e3 \<le> 7.486674005731"
    unfolding e3_def using H3 s3 by simp
  have b4l: "7.486674005704 \<le> e4"
    unfolding e4_def using H4 s4 by simp
  have b4u: "e4 \<le> 7.486674005731"
    unfolding e4_def using H4 s4 by simp
  have c1: "eC < eF" using bCu bFl by simp
  have c2: "e2 \<le> eC" using bCl b2u by simp
  have c3: "e3 \<le> eC" using bCl b3u by simp
  have c4: "e4 \<le> eC" using bCl b4u by simp
  note st = fluoromethane_step[OF eC_def eF_def e2_def e3_def e4_def c1 c2 c3 c4, of d]
  define tF where "tF = (eF - eC) / 19.04 * d"
  define t2 where "t2 = (e2 - eC) / 20.02 * d"
  define t3 where "t3 = (e3 - eC) / 20.02 * d"
  define t4 where "t4 = (e4 - eC) / 20.02 * d"
  have tF: "304.64 * tF = eF - eC" unfolding tF_def d by simp
  have t2: "320.32 * t2 = e2 - eC" unfolding t2_def d by simp
  have t3: "320.32 * t3 = e3 - eC" unfolding t3_def d by simp
  have t4: "320.32 * t4 = e4 - eC" unfolding t4_def d by simp
  have uFl: "0.008990775514 \<le> tF"
    using tF bCl bCu bFl bFu by simp
  have uFu: "tF \<le> 0.008990775516"
    using tF bCl bCu bFl bFu by simp
  have u2l: "- 0.003995044338 \<le> t2"
    using t2 bCl bCu b2l b2u by simp
  have u2u: "t2 \<le> - 0.003995044336"
    using t2 bCl bCu b2l b2u by simp
  have u3l: "- 0.003995044338 \<le> t3"
    using t3 bCl bCu b3l b3u by simp
  have u3u: "t3 \<le> - 0.003995044336"
    using t3 bCl bCu b3l b3u by simp
  have u4l: "- 0.003995044338 \<le> t4"
    using t4 bCl bCu b4l b4u by simp
  have u4u: "t4 \<le> - 0.003995044336"
    using t4 bCl bCu b4l b4u by simp
  have rCl: "0.081214286053 \<le> qC + tF + t2 + t3 + t4"
    using C uFl uFu u2l u2u u3l u3u u4l u4u by simp
  have rCu: "qC + tF + t2 + t3 + t4 \<le> 0.081214286076"
    using C uFl uFu u2l u2u u3l u3u u4l u4u by simp
  have rFl: "- 0.24614632047 \<le> qF - tF"
    using F uFl uFu by simp
  have rFu: "qF - tF \<le> - 0.246146320465"
    using F uFl uFu by simp
  have r2l: "0.054977344798 \<le> q2 - t2"
    using H2 u2l u2u by simp
  have r2u: "q2 - t2 \<le> 0.054977344804"
    using H2 u2l u2u by simp
  have r3l: "0.054977344798 \<le> q3 - t3"
    using H3 u3l u3u by simp
  have r3u: "q3 - t3 \<le> 0.054977344804"
    using H3 u3l u3u by simp
  have r4l: "0.054977344798 \<le> q4 - t4"
    using H4 u4l u4u by simp
  have r4u: "q4 - t4 \<le> 0.054977344804"
    using H4 u4l u4u by simp
  show ?thesis
    using st rCl rCu rFl rFu r2l r2u r3l r3u r4l r4u
    unfolding tF_def t2_def t3_def t4_def by blast
qed

lemma fm_box_5:
  fixes qC qF q2 q3 q4 d :: real
  assumes d: "d = 1 / 32"
    and C: "0.081214286053 \<le> qC" "qC \<le> 0.081214286076"
    and F: "- 0.24614632047 \<le> qF" "qF \<le> - 0.246146320465"
    and H2: "0.054977344798 \<le> q2" "q2 \<le> 0.054977344804"
    and H3: "0.054977344798 \<le> q3" "q3 \<le> 0.054977344804"
    and H4: "0.054977344798 \<le> q4" "q4 \<le> 0.054977344804"
  shows "\<exists>rC rF r2 r3 r4.
           iteration_step fm_parameters fm_bonds d [Fin qC, Fin qF, Fin q2, Fin q3, Fin q4] =
             Inr [Fin rC, Fin rF, Fin r2, Fin r3, Fin r4]
           \<and> 0.079824561207 \<le> rC \<and> rC \<le> 0.079824561237
           \<and> - 0.250500450906 \<le> rF \<and> rF \<le> - 0.2505004509
           \<and> 0.056891963223 \<le> r2 \<and> r2 \<le> 0.056891963231
           \<and> 0.056891963223 \<le> r3 \<and> r3 \<le> 0.056891963231
           \<and> 0.056891963223 \<le> r4 \<and> r4 \<le> 0.056891963231"
proof -
  define eC where "eC = 7.98 + 9.18 * qC + 1.88 * (qC * qC)"
  define eF where "eF = 14.66 + 13.85 * qF + 2.31 * (qF * qF)"
  define e2 where "e2 = 7.17 + 6.24 * q2 - 0.56 * (q2 * q2)"
  define e3 where "e3 = 7.17 + 6.24 * q3 - 0.56 * (q3 * q3)"
  define e4 where "e4 = 7.17 + 6.24 * q4 - 0.56 * (q4 * q4)"
  have sC: "0.006595760259098510318809 \<le> qC * qC" "qC * qC \<le> 0.006595760262834367477776"
    using sq_bounds_pos[of "0.081214286053" qC "0.081214286076"] C by simp_all
  have sF: "0.060588011078458477816225 \<le> qF * qF" "qF * qF \<le> 0.0605880110809199410209"
    using sq_bounds_neg[of "- 0.246146320465" "- 0.24614632047" qF] F by simp_all
  have s2: "0.003022508441038177660804 \<le> q2 * q2" "q2 * q2 \<le> 0.003022508441697905798416"
    using sq_bounds_pos[of "0.054977344798" q2 "0.054977344804"] H2 by simp_all
  have s3: "0.003022508441038177660804 \<le> q3 * q3" "q3 * q3 \<le> 0.003022508441697905798416"
    using sq_bounds_pos[of "0.054977344798" q3 "0.054977344804"] H3 by simp_all
  have s4: "0.003022508441038177660804 \<le> q4 * q4" "q4 * q4 \<le> 0.003022508441697905798416"
    using sq_bounds_pos[of "0.054977344798" q4 "0.054977344804"] H4 by simp_all
  have bCl: "8.737947175253 \<le> eC"
    unfolding eC_def using C sC by simp
  have bCu: "eC \<le> 8.737947175472"
    unfolding eC_def using C sC by simp
  have bFl: "11.390831767081 \<le> eF"
    unfolding eF_def using F sF by simp
  have bFu: "eF \<le> 11.390831767157"
    unfolding eF_def using F sF by simp
  have b2l: "7.511366026812 \<le> e2"
    unfolding e2_def using H2 s2 by simp
  have b2u: "e2 \<le> 7.51136602685"
    unfolding e2_def using H2 s2 by simp
  have b3l: "7.511366026812 \<le> e3"
    unfolding e3_def using H3 s3 by simp
  have b3u: "e3 \<le> 7.51136602685"
    unfolding e3_def using H3 s3 by simp
  have b4l: "7.511366026812 \<le> e4"
    unfolding e4_def using H4 s4 by simp
  have b4u: "e4 \<le> 7.51136602685"
    unfolding e4_def using H4 s4 by simp
  have c1: "eC < eF" using bCu bFl by simp
  have c2: "e2 \<le> eC" using bCl b2u by simp
  have c3: "e3 \<le> eC" using bCl b3u by simp
  have c4: "e4 \<le> eC" using bCl b4u by simp
  note st = fluoromethane_step[OF eC_def eF_def e2_def e3_def e4_def c1 c2 c3 c4, of d]
  define tF where "tF = (eF - eC) / 19.04 * d"
  define t2 where "t2 = (e2 - eC) / 20.02 * d"
  define t3 where "t3 = (e3 - eC) / 20.02 * d"
  define t4 where "t4 = (e4 - eC) / 20.02 * d"
  have tF: "609.28 * tF = eF - eC" unfolding tF_def d by simp
  have t2: "640.64 * t2 = e2 - eC" unfolding t2_def d by simp
  have t3: "640.64 * t3 = e3 - eC" unfolding t3_def d by simp
  have t4: "640.64 * t4 = e4 - eC" unfolding t4_def d by simp
  have uFl: "0.004354130435 \<le> tF"
    using tF bCl bCu bFl bFu by simp
  have uFu: "tF \<le> 0.004354130436"
    using tF bCl bCu bFl bFu by simp
  have u2l: "- 0.001914618427 \<le> t2"
    using t2 bCl bCu b2l b2u by simp
  have u2u: "t2 \<le> - 0.001914618425"
    using t2 bCl bCu b2l b2u by simp
  have u3l: "- 0.001914618427 \<le> t3"
    using t3 bCl bCu b3l b3u by simp
  have u3u: "t3 \<le> - 0.001914618425"
    using t3 bCl bCu b3l b3u by simp
  have u4l: "- 0.001914618427 \<le> t4"
    using t4 bCl bCu b4l b4u by simp
  have u4u: "t4 \<le> - 0.001914618425"
    using t4 bCl bCu b4l b4u by simp
  have rCl: "0.079824561207 \<le> qC + tF + t2 + t3 + t4"
    using C uFl uFu u2l u2u u3l u3u u4l u4u by simp
  have rCu: "qC + tF + t2 + t3 + t4 \<le> 0.079824561237"
    using C uFl uFu u2l u2u u3l u3u u4l u4u by simp
  have rFl: "- 0.250500450906 \<le> qF - tF"
    using F uFl uFu by simp
  have rFu: "qF - tF \<le> - 0.2505004509"
    using F uFl uFu by simp
  have r2l: "0.056891963223 \<le> q2 - t2"
    using H2 u2l u2u by simp
  have r2u: "q2 - t2 \<le> 0.056891963231"
    using H2 u2l u2u by simp
  have r3l: "0.056891963223 \<le> q3 - t3"
    using H3 u3l u3u by simp
  have r3u: "q3 - t3 \<le> 0.056891963231"
    using H3 u3l u3u by simp
  have r4l: "0.056891963223 \<le> q4 - t4"
    using H4 u4l u4u by simp
  have r4u: "q4 - t4 \<le> 0.056891963231"
    using H4 u4l u4u by simp
  show ?thesis
    using st rCl rCu rFl rFu r2l r2u r3l r3u r4l r4u
    unfolding tF_def t2_def t3_def t4_def by blast
qed

lemma fm_box_6:
  fixes qC qF q2 q3 q4 d :: real
  assumes d: "d = 1 / 64"
    and C: "0.079824561207 \<le> qC" "qC \<le> 0.079824561237"
    and F: "- 0.250500450906 \<le> qF" "qF \<le> - 0.2505004509"
    and H2: "0.056891963223 \<le> q2" "q2 \<le> 0.056891963231"
    and H3: "0.056891963223 \<le> q3" "q3 \<le> 0.056891963231"
    and H4: "0.056891963223 \<le> q4" "q4 \<le> 0.056891963231"
  shows "\<exists>rC rF r2 r3 r4.
           iteration_step fm_parameters fm_bonds d [Fin qC, Fin qF, Fin q2, Fin q3, Fin q4] =
             Inr [Fin rC, Fin rF, Fin r2, Fin r3, Fin r4]
           \<and> 0.079153672913 \<le> rC \<and> rC \<le> 0.079153672948
           \<and> - 0.252642941713 \<le> rF \<and> rF \<le> - 0.252642941705
           \<and> 0.057829756255 \<le> r2 \<and> r2 \<le> 0.057829756264
           \<and> 0.057829756255 \<le> r3 \<and> r3 \<le> 0.057829756264
           \<and> 0.057829756255 \<le> r4 \<and> r4 \<le> 0.057829756264"
proof -
  define eC where "eC = 7.98 + 9.18 * qC + 1.88 * (qC * qC)"
  define eF where "eF = 14.66 + 13.85 * qF + 2.31 * (qF * qF)"
  define e2 where "e2 = 7.17 + 6.24 * q2 - 0.56 * (q2 * q2)"
  define e3 where "e3 = 7.17 + 6.24 * q3 - 0.56 * (q3 * q3)"
  define e4 where "e4 = 7.17 + 6.24 * q4 - 0.56 * (q4 * q4)"
  have sC: "0.006371960571890089296849 \<le> qC * qC" "qC * qC \<le> 0.006371960576679562970169"
    using sq_bounds_pos[of "0.079824561207" qC "0.079824561237"] C by simp_all
  have sF: "0.06275047590110331081 \<le> qF * qF" "qF * qF \<le> 0.062750475904109316220836"
    using sq_bounds_neg[of "- 0.2505004509" "- 0.250500450906" qF] F by simp_all
  have s2: "0.003236695479367184547729 \<le> q2 * q2" "q2 * q2 \<le> 0.003236695480277455959361"
    using sq_bounds_pos[of "0.056891963223" q2 "0.056891963231"] H2 by simp_all
  have s3: "0.003236695479367184547729 \<le> q3 * q3" "q3 * q3 \<le> 0.003236695480277455959361"
    using sq_bounds_pos[of "0.056891963223" q3 "0.056891963231"] H3 by simp_all
  have s4: "0.003236695479367184547729 \<le> q4 * q4" "q4 * q4 \<le> 0.003236695480277455959361"
    using sq_bounds_pos[of "0.056891963223" q4 "0.056891963231"] H4 by simp_all
  have bCl: "8.724768757755 \<le> eC"
    unfolding eC_def using C sC by simp
  have bCu: "eC \<le> 8.72476875804"
    unfolding eC_def using C sC by simp
  have bFl: "11.335522354283 \<le> eF"
    unfolding eF_def using F sF by simp
  have bFu: "eF \<le> 11.335522354374"
    unfolding eF_def using F sF by simp
  have b2l: "7.523193301042 \<le> e2"
    unfolding e2_def using H2 s2 by simp
  have b2u: "e2 \<le> 7.523193301093"
    unfolding e2_def using H2 s2 by simp
  have b3l: "7.523193301042 \<le> e3"
    unfolding e3_def using H3 s3 by simp
  have b3u: "e3 \<le> 7.523193301093"
    unfolding e3_def using H3 s3 by simp
  have b4l: "7.523193301042 \<le> e4"
    unfolding e4_def using H4 s4 by simp
  have b4u: "e4 \<le> 7.523193301093"
    unfolding e4_def using H4 s4 by simp
  have c1: "eC < eF" using bCu bFl by simp
  have c2: "e2 \<le> eC" using bCl b2u by simp
  have c3: "e3 \<le> eC" using bCl b3u by simp
  have c4: "e4 \<le> eC" using bCl b4u by simp
  note st = fluoromethane_step[OF eC_def eF_def e2_def e3_def e4_def c1 c2 c3 c4, of d]
  define tF where "tF = (eF - eC) / 19.04 * d"
  define t2 where "t2 = (e2 - eC) / 20.02 * d"
  define t3 where "t3 = (e3 - eC) / 20.02 * d"
  define t4 where "t4 = (e4 - eC) / 20.02 * d"
  have tF: "1218.56 * tF = eF - eC" unfolding tF_def d by simp
  have t2: "1281.28 * t2 = e2 - eC" unfolding t2_def d by simp
  have t3: "1281.28 * t3 = e3 - eC" unfolding t3_def d by simp
  have t4: "1281.28 * t4 = e4 - eC" unfolding t4_def d by simp
  have uFl: "0.002142490805 \<le> tF"
    using tF bCl bCu bFl bFu by simp
  have uFu: "tF \<le> 0.002142490807"
    using tF bCl bCu bFl bFu by simp
  have u2l: "- 0.000937793033 \<le> t2"
    using t2 bCl bCu b2l b2u by simp
  have u2u: "t2 \<le> - 0.000937793032"
    using t2 bCl bCu b2l b2u by simp
  have u3l: "- 0.000937793033 \<le> t3"
    using t3 bCl bCu b3l b3u by simp
  have u3u: "t3 \<le> - 0.000937793032"
    using t3 bCl bCu b3l b3u by simp
  have u4l: "- 0.000937793033 \<le> t4"
    using t4 bCl bCu b4l b4u by simp
  have u4u: "t4 \<le> - 0.000937793032"
    using t4 bCl bCu b4l b4u by simp
  have rCl: "0.079153672913 \<le> qC + tF + t2 + t3 + t4"
    using C uFl uFu u2l u2u u3l u3u u4l u4u by simp
  have rCu: "qC + tF + t2 + t3 + t4 \<le> 0.079153672948"
    using C uFl uFu u2l u2u u3l u3u u4l u4u by simp
  have rFl: "- 0.252642941713 \<le> qF - tF"
    using F uFl uFu by simp
  have rFu: "qF - tF \<le> - 0.252642941705"
    using F uFl uFu by simp
  have r2l: "0.057829756255 \<le> q2 - t2"
    using H2 u2l u2u by simp
  have r2u: "q2 - t2 \<le> 0.057829756264"
    using H2 u2l u2u by simp
  have r3l: "0.057829756255 \<le> q3 - t3"
    using H3 u3l u3u by simp
  have r3u: "q3 - t3 \<le> 0.057829756264"
    using H3 u3l u3u by simp
  have r4l: "0.057829756255 \<le> q4 - t4"
    using H4 u4l u4u by simp
  have r4u: "q4 - t4 \<le> 0.057829756264"
    using H4 u4l u4u by simp
  show ?thesis
    using st rCl rCu rFl rFu r2l r2u r3l r3u r4l r4u
    unfolding tF_def t2_def t3_def t4_def by blast
qed

lemma close_to_Fin:
  "r - eps \<le> x \<Longrightarrow> x \<le> r + eps \<Longrightarrow> close_to eps (Fin x) r"
  by (simp add: close_to_def abs_le_iff)

lemma fluoromethane_unfold:
  "partial_charges fluoromethane n None =
     ([NoChargesWarning],
      iteration_loop (nat n) fm_parameters fm_bonds 1 [Fin 0, Fin 0, Fin 0, Fin 0, Fin 0])"
proof -
  have b: "bonds fluoromethane = Some fm_bonds" by (simp add: fluoromethane_def fm_bonds_def)
  have i: "initial_charges fluoromethane None =
             ([Fin 0, Fin 0, Fin 0, Fin 0, Fin 0], [NoChargesWarning])"
    by (simp add: initial_charges_def fluoromethane_def numeral_eq_Suc)
  show ?thesis
    by (simp add: partial_charges_def b i fluoromethane_parameters)
qed

section \<open>The claims\<close>







text \<open>
  C7. For an atom array without a bond list, whatever the number of iteration
  steps and the charges argument, \<open>partial_charges\<close> raises
  \<^verbatim>\<open>AttributeError\<close>: no warning has been emitted and no charges are returned.
\<close>

theorem missing_bond_list_raises:
  "bonds atoms = None \<Longrightarrow>
   partial_charges atoms iteration_step_num charges = ([], Inl AttributeError)"
  by (simp add: partial_charges_def)

theorem missing_bond_list_raises_witness:
  "bonds \<lparr>element = [''C'', ''H''], bonds = None, charges_attr = Some [Fin 0, Fin 0]\<rparr> = None
   \<and> partial_charges
       \<lparr>element = [''C'', ''H''], bonds = None, charges_attr = Some [Fin 0, Fin 0]\<rparr>
       6 (Some [Fin 1, Fin 0]) = ([], Inl AttributeError)"
  using missing_bond_list_raises
    [of "\<lparr>element = [''C'', ''H''], bonds = None, charges_attr = Some [Fin 0, Fin 0]\<rparr>"
        6 "Some [Fin 1, Fin 0]"]
  by simp

text \<open>
  C9. For an atom without bonded atoms and any number of iteration steps, the
  charge returned for the atom is its initial charge (from the argument, from
  the attribute of the atom array, or the default zero); and a call on
  well-formed input does return charges.
\<close>

theorem unbonded_atom_keeps_charge:
  assumes "bonds atoms = Some bs" and "get_bonds bs i = []"
  shows "(\<forall>ws cs. partial_charges atoms iteration_step_num charges = (ws, Inr cs) \<longrightarrow>
            cs ! i = fst (initial_charges atoms charges) ! i)
       \<and> (well_formed atoms bs charges \<longrightarrow>
            (\<exists>ws cs. partial_charges atoms iteration_step_num charges = (ws, Inr cs)))"
  using assms partial_charges_returns[of atoms bs charges iteration_step_num]
  by (auto simp: partial_charges_unfold dest: iteration_loop_untouched)

theorem unbonded_atom_keeps_charge_witness:
  "bonds hf_and_argon = Some [(0, 1, 1)] \<and> get_bonds [(0, 1, 1)] 2 = []
   \<and> well_formed hf_and_argon [(0, 1, 1)] (Some [Fin 0, Fin 0, Fin 3])
   \<and> partial_charges hf_and_argon 2 (Some [Fin 0, Fin 0, Fin 3]) =
       ([UnparametrizedWarning [''Ar'']],
        Inr [Fin (87929925 / 374298496), Fin (- (87929925 / 374298496)), Fin 3])
   \<and> [Fin (87929925 / 374298496), Fin (- (87929925 / 374298496)), Fin 3] ! 2 =
       fst (initial_charges hf_and_argon (Some [Fin 0, Fin 0, Fin 3])) ! 2"
proof -
  have h1: "bonds hf_and_argon = Some [(0, 1, 1)]" by (simp add: hf_and_argon_def)
  have h2: "get_bonds [(0, 1, 1)] 2 = []" by simp
  have h3: "well_formed hf_and_argon [(0, 1, 1)] (Some [Fin 0, Fin 0, Fin 3])"
    by (simp add: well_formed_def bonds_in_range_def hf_and_argon_def initial_charges_def)
  show ?thesis
    using h1 h2 h3 hf_and_argon_two_steps
      unbonded_atom_keeps_charge[OF h1 h2, of 2 "Some [Fin 0, Fin 0, Fin 3]"]
    by simp
qed





text \<open>
  C8. The claim fails where it promises NaN for every atom without a table
  entry: the argon atom of \<open>hf_and_argon\<close> has no entry and no bond, and its
  charge comes back as given.
\<close>

theorem unparametrized_atom_all_nan_counterexample:
  "bonds hf_and_argon = Some [(0, 1, 1)]
   \<and> \<not> parametrized hf_and_argon [(0, 1, 1)] 2
   \<and> partial_charges hf_and_argon 2 (Some [Fin 0, Fin 0, Fin 3]) =
       ([UnparametrizedWarning [''Ar'']],
        Inr [Fin (87929925 / 374298496), Fin (- (87929925 / 374298496)), Fin 3])
   \<and> \<not> isnan ([Fin (87929925 / 374298496), Fin (- (87929925 / 374298496)), Fin 3] ! 2)"
  using hf_and_argon_two_steps
  by (simp add: hf_and_argon_def parametrized_def lookup_parameters_def EN_PARAMETERS_def)

text \<open>
  C8, amended. When at least one atom has no table entry for its element and
  its number of binding partners, the call emits exactly one warning about
  missing parameters, after the warning about missing charges if there is one;
  it lists the elements of the atoms without entry, each once; and the charge
  returned for such an atom is NaN when the atom has at least one bond and at
  least one iteration step is run.
\<close>

theorem unparametrized_atoms_reported:
  assumes "bonds atoms = Some bs"
    and "\<exists>i<length (element atoms). \<not> parametrized atoms bs i"
  shows "(\<exists>ws0 us. fst (partial_charges atoms iteration_step_num charges) =
              ws0 @ [UnparametrizedWarning us]
            \<and> (ws0 = [] \<or> ws0 = [NoChargesWarning])
            \<and> distinct us
            \<and> set us = {element atoms ! i | i.
                        i < length (element atoms) \<and> \<not> parametrized atoms bs i})
       \<and> (\<forall>ws cs i. partial_charges atoms iteration_step_num charges = (ws, Inr cs)
            \<and> 0 < iteration_step_num \<and> i < length (element atoms)
            \<and> \<not> parametrized atoms bs i \<and> get_bonds bs i \<noteq> [] \<longrightarrow> cs ! i = NaN)"
proof (intro conjI allI impI)
  let ?u = "map fst (filter (\<lambda>(e, n). lookup_parameters e n = None)
              (zip (element atoms) (binding_partners atoms bs)))"
  have "fst (partial_charges atoms iteration_step_num charges) =
          snd (initial_charges atoms charges) @ [UnparametrizedWarning (unique ?u)]"
    using assms(2)
    by (simp add: partial_charges_unfold[OF assms(1)] get_parameters_warnings)
  moreover have "set (unique ?u) = {element atoms ! i | i.
                   i < length (element atoms) \<and> \<not> parametrized atoms bs i}"
    by (simp only: unique_set unparametrized_elements_set)
  ultimately show "\<exists>ws0 us. fst (partial_charges atoms iteration_step_num charges) =
              ws0 @ [UnparametrizedWarning us]
            \<and> (ws0 = [] \<or> ws0 = [NoChargesWarning])
            \<and> distinct us
            \<and> set us = {element atoms ! i | i.
                        i < length (element atoms) \<and> \<not> parametrized atoms bs i}"
    using initial_charges_warnings[of atoms charges] unique_distinct[of ?u] by blast
next
  fix ws cs i
  let ?ps = "fst (get_parameters (element atoms) (binding_partners atoms bs))"
  assume a: "partial_charges atoms iteration_step_num charges = (ws, Inr cs)
            \<and> 0 < iteration_step_num \<and> i < length (element atoms)
            \<and> \<not> parametrized atoms bs i \<and> get_bonds bs i \<noteq> []"
  then have loop: "iteration_loop (nat iteration_step_num) ?ps bs 1
                     (fst (initial_charges atoms charges)) = Inr cs"
    by (simp add: partial_charges_unfold[OF assms(1)])
  from a have row: "?ps ! i = (NaN, NaN, NaN)" using parametrized_row[of i atoms bs] by simp
  from a have i: "i < length ?ps" by (simp add: parameters_length)
  from a have "0 < nat iteration_step_num" "get_bonds bs i \<noteq> []" by simp_all
  from iteration_loop_poisons[OF row i this(2) loop this(1)] show "cs ! i = NaN" .
qed

theorem unparametrized_atoms_reported_witness:
  "bonds \<lparr>element = [''H'', ''Xe'', ''Xe''], bonds = Some [(0, 1, 1)], charges_attr = None\<rparr> =
     Some [(0, 1, 1)]
   \<and> (1::nat) < length [''H'', ''Xe'', ''Xe'']
   \<and> \<not> parametrized
         \<lparr>element = [''H'', ''Xe'', ''Xe''], bonds = Some [(0, 1, 1)], charges_attr = None\<rparr>
         [(0, 1, 1)] 1
   \<and> get_bonds [(0, 1, 1)] 1 \<noteq> [] \<and> (0::int) < 1
   \<and> partial_charges
        \<lparr>element = [''H'', ''Xe'', ''Xe''], bonds = Some [(0, 1, 1)], charges_attr = None\<rparr>
        1 None =
       ([NoChargesWarning, UnparametrizedWarning [''Xe'']], Inr [Fin 0, NaN, Fin 0])
   \<and> [Fin 0, NaN, Fin 0] ! 1 = NaN"
proof -
  let ?a = "\<lparr>element = [''H'', ''Xe'', ''Xe''], bonds = Some [(0, 1, 1)], charges_attr = None\<rparr>"
  have h1: "bonds ?a = Some [(0, 1, 1)]" by simp
  have np: "\<not> parametrized ?a [(0, 1, 1)] 1"
    by (simp add: parametrized_def lookup_parameters_def EN_PARAMETERS_def)
  then have h2: "\<exists>i<length (element ?a). \<not> parametrized ?a [(0, 1, 1)] i"
    by (intro exI[of _ 1]) simp
  have e: "partial_charges ?a 1 None =
       ([NoChargesWarning, UnparametrizedWarning [''Xe'']], Inr [Fin 0, NaN, Fin 0])"
    by (simp add: eval_defs)
  from unparametrized_atoms_reported[OF h1 h2, of 1 None] e np
  have "[Fin 0, NaN, Fin 0] ! 1 = NaN" by simp
  with h1 np e show ?thesis by simp
qed

text \<open>
  C10. An atom without bonded atoms has no table entry, whatever its element,
  since the table has no entry for zero binding partners. Every call on an atom
  array with a bond list therefore warns about missing parameters and lists the
  element of that atom, while the charge returned for it is its initial charge,
  a number whenever the initial charge is one.
\<close>

theorem unbonded_atom_is_reported:
  assumes "bonds atoms = Some bs" and "i < length (element atoms)"
    and "get_bonds bs i = []"
  shows "lookup_parameters (element atoms ! i) (length (get_bonds bs i)) = None
       \<and> (\<exists>ws0 us. fst (partial_charges atoms iteration_step_num charges) =
              ws0 @ [UnparametrizedWarning us]
            \<and> element atoms ! i \<in> set us)
       \<and> (\<forall>ws cs. partial_charges atoms iteration_step_num charges = (ws, Inr cs) \<longrightarrow>
            cs ! i = fst (initial_charges atoms charges) ! i
            \<and> (\<not> isnan (fst (initial_charges atoms charges) ! i) \<longrightarrow> \<not> isnan (cs ! i)))"
proof (intro conjI allI impI)
  show none: "lookup_parameters (element atoms ! i) (length (get_bonds bs i)) = None"
    by (simp add: assms(3) table_no_valence_zero)
  let ?u = "map fst (filter (\<lambda>(e, n). lookup_parameters e n = None)
              (zip (element atoms) (binding_partners atoms bs)))"
  from none assms(2) have np: "i < length (element atoms) \<and> \<not> parametrized atoms bs i"
    by (simp add: parametrized_def)
  then have ex: "\<exists>i<length (element atoms). \<not> parametrized atoms bs i" by blast
  have "fst (partial_charges atoms iteration_step_num charges) =
          snd (initial_charges atoms charges) @ [UnparametrizedWarning (unique ?u)]"
    using ex by (simp add: partial_charges_unfold[OF assms(1)] get_parameters_warnings)
  moreover have "element atoms ! i \<in> set (unique ?u)"
    using np by (simp only: unique_set unparametrized_elements_set) blast
  ultimately show "\<exists>ws0 us. fst (partial_charges atoms iteration_step_num charges) =
              ws0 @ [UnparametrizedWarning us] \<and> element atoms ! i \<in> set us"
    by blast
next
  fix ws cs
  assume r: "partial_charges atoms iteration_step_num charges = (ws, Inr cs)"
  then show eq: "cs ! i = fst (initial_charges atoms charges) ! i"
    using assms(1,3)
    by (auto simp: partial_charges_unfold dest: iteration_loop_untouched)
  assume "\<not> isnan (fst (initial_charges atoms charges) ! i)"
  with eq show "\<not> isnan (cs ! i)" by simp
qed

theorem unbonded_atom_is_reported_witness:
  "bonds hf_and_argon = Some [(0, 1, 1)] \<and> (2::nat) < length (element hf_and_argon)
   \<and> get_bonds [(0, 1, 1)] 2 = []
   \<and> lookup_parameters (element hf_and_argon ! 2) (length (get_bonds [(0, 1, 1)] 2)) = None
   \<and> partial_charges hf_and_argon 2 (Some [Fin 0, Fin 0, Fin 3]) =
       ([UnparametrizedWarning [''Ar'']],
        Inr [Fin (87929925 / 374298496), Fin (- (87929925 / 374298496)), Fin 3])
   \<and> element hf_and_argon ! 2 \<in> set [''Ar'']
   \<and> \<not> isnan (fst (initial_charges hf_and_argon (Some [Fin 0, Fin 0, Fin 3])) ! 2)
   \<and> \<not> isnan ([Fin (87929925 / 374298496), Fin (- (87929925 / 374298496)), Fin 3] ! 2)"
proof -
  have h1: "bonds hf_and_argon = Some [(0, 1, 1)]" by (simp add: hf_and_argon_def)
  have h2: "(2::nat) < length (element hf_and_argon)" by (simp add: hf_and_argon_def)
  have h3: "get_bonds [(0, 1, 1)] 2 = []" by simp
  have h4: "\<not> isnan (fst (initial_charges hf_and_argon (Some [Fin 0, Fin 0, Fin 3])) ! 2)"
    by (simp add: initial_charges_def)
  have h5: "element hf_and_argon ! 2 \<in> set [''Ar'']" by (simp add: hf_and_argon_def)
  from unbonded_atom_is_reported[OF h1 h2 h3, of 2 "Some [Fin 0, Fin 0, Fin 3]"]
    hf_and_argon_two_steps h4
  have "lookup_parameters (element hf_and_argon ! 2) (length (get_bonds [(0, 1, 1)] 2)) = None"
    and "\<not> isnan ([Fin (87929925 / 374298496), Fin (- (87929925 / 374298496)), Fin 3] ! 2)"
    by blast+
  with h1 h2 h3 h4 h5 hf_and_argon_two_steps show ?thesis by blast
qed

text \<open>
  C2. For fluoromethane, with the atoms C1, F1, H1, H2, H3, the carbon bonded
  to the fluorine and to the three hydrogens, and no charges given, so that all
  initial charges are zero, \<open>partial_charges\<close> returns charges within
  \<open>10\<^sup>-\<^sup>4\<close> of 0.1147, -0.1754, 0.0202, 0.0202, 0.0202 after one iteration step
  and within \<open>10\<^sup>-\<^sup>4\<close> of 0.0792, -0.2526, 0.0578, 0.0578, 0.0578 after six.
\<close>

theorem fluoromethane_reference:
  "charges_close_to (1 / 10 ^ 4) (snd (partial_charges fluoromethane 1 None))
     [0.1147, - 0.1754, 0.0202, 0.0202, 0.0202]
   \<and> charges_close_to (1 / 10 ^ 4) (snd (partial_charges fluoromethane 6 None))
     [0.0792, - 0.2526, 0.0578, 0.0578, 0.0578]"
proof -
  let ?c0 = "[Fin 0, Fin 0, Fin 0, Fin 0, Fin 0]"
  have "\<exists>rC rF r2 r3 r4.
          iteration_step fm_parameters fm_bonds (1 * 0.5)
            [Fin 0, Fin 0, Fin 0, Fin 0, Fin 0] =
            Inr [Fin rC, Fin rF, Fin r2, Fin r3, Fin r4]
          \<and> 0.114730857377 \<le> rC \<and> rC \<le> 0.114730857381
          \<and> - 0.175420168068 \<le> rF \<and> rF \<le> - 0.175420168067
          \<and> 0.020229770229 \<le> r2 \<and> r2 \<le> 0.02022977023
          \<and> 0.020229770229 \<le> r3 \<and> r3 \<le> 0.02022977023
          \<and> 0.020229770229 \<le> r4 \<and> r4 \<le> 0.02022977023"
    using fm_box_1[of "1 * 0.5" 0 0 0 0 0] by simp
  then obtain a1 b1 c1 d1 e1
    where s1: "iteration_step fm_parameters fm_bonds (1 * 0.5)
             [Fin 0, Fin 0, Fin 0, Fin 0, Fin 0] =
             Inr [Fin a1, Fin b1, Fin c1, Fin d1, Fin e1]"
      and h1: "0.114730857377 \<le> a1" "a1 \<le> 0.114730857381"
        "- 0.175420168068 \<le> b1" "b1 \<le> - 0.175420168067"
        "0.020229770229 \<le> c1" "c1 \<le> 0.02022977023"
        "0.020229770229 \<le> d1" "d1 \<le> 0.02022977023"
        "0.020229770229 \<le> e1" "e1 \<le> 0.02022977023"
    by blast
  have "\<exists>rC rF r2 r3 r4.
          iteration_step fm_parameters fm_bonds (1 * 0.5 * 0.5)
            [Fin a1, Fin b1, Fin c1, Fin d1, Fin e1] =
            Inr [Fin rC, Fin rF, Fin r2, Fin r3, Fin r4]
          \<and> 0.091311414589 \<le> rC \<and> rC \<le> 0.091311414597
          \<and> - 0.218008646355 \<le> rF \<and> rF \<le> - 0.218008646353
          \<and> 0.042232410586 \<le> r2 \<and> r2 \<le> 0.042232410588
          \<and> 0.042232410586 \<le> r3 \<and> r3 \<le> 0.042232410588
          \<and> 0.042232410586 \<le> r4 \<and> r4 \<le> 0.042232410588"
    using fm_box_2[of "1 * 0.5 * 0.5" a1 b1 c1 d1 e1] h1 by simp
  then obtain a2 b2 c2 d2 e2
    where s2: "iteration_step fm_parameters fm_bonds (1 * 0.5 * 0.5)
             [Fin a1, Fin b1, Fin c1, Fin d1, Fin e1] =
             Inr [Fin a2, Fin b2, Fin c2, Fin d2, Fin e2]"
      and h2: "0.091311414589 \<le> a2" "a2 \<le> 0.091311414597"
        "- 0.218008646355 \<le> b2" "b2 \<le> - 0.218008646353"
        "0.042232410586 \<le> c2" "c2 \<le> 0.042232410588"
        "0.042232410586 \<le> d2" "d2 \<le> 0.042232410588"
        "0.042232410586 \<le> e2" "e2 \<le> 0.042232410588"
    by blast
  have "\<exists>rC rF r2 r3 r4.
          iteration_step fm_parameters fm_bonds (1 * 0.5 * 0.5 * 0.5)
            [Fin a2, Fin b2, Fin c2, Fin d2, Fin e2] =
            Inr [Fin rC, Fin rF, Fin r2, Fin r3, Fin r4]
          \<and> 0.084208643553 \<le> rC \<and> rC \<le> 0.084208643568
          \<and> - 0.237155544954 \<le> rF \<and> rF \<le> - 0.237155544951
          \<and> 0.050982300462 \<le> r2 \<and> r2 \<le> 0.050982300466
          \<and> 0.050982300462 \<le> r3 \<and> r3 \<le> 0.050982300466
          \<and> 0.050982300462 \<le> r4 \<and> r4 \<le> 0.050982300466"
    using fm_box_3[of "1 * 0.5 * 0.5 * 0.5" a2 b2 c2 d2 e2] h2 by simp
  then obtain a3 b3 c3 d3 e3
    where s3: "iteration_step fm_parameters fm_bonds (1 * 0.5 * 0.5 * 0.5)
             [Fin a2, Fin b2, Fin c2, Fin d2, Fin e2] =
             Inr [Fin a3, Fin b3, Fin c3, Fin d3, Fin e3]"
      and h3: "0.084208643553 \<le> a3" "a3 \<le> 0.084208643568"
        "- 0.237155544954 \<le> b3" "b3 \<le> - 0.237155544951"
        "0.050982300462 \<le> c3" "c3 \<le> 0.050982300466"
        "0.050982300462 \<le> d3" "d3 \<le> 0.050982300466"
        "0.050982300462 \<le> e3" "e3 \<le> 0.050982300466"
    by blast
  have "\<exists>rC rF r2 r3 r4.
          iteration_step fm_parameters fm_bonds (1 * 0.5 * 0.5 * 0.5 * 0.5)
            [Fin a3, Fin b3, Fin c3, Fin d3, Fin e3] =
            Inr [Fin rC, Fin rF, Fin r2, Fin r3, Fin r4]
          \<and> 0.081214286053 \<le> rC \<and> rC \<le> 0.081214286076
          \<and> - 0.24614632047 \<le> rF \<and> rF \<le> - 0.246146320465
          \<and> 0.054977344798 \<le> r2 \<and> r2 \<le> 0.054977344804
          \<and> 0.054977344798 \<le> r3 \<and> r3 \<le> 0.054977344804
          \<and> 0.054977344798 \<le> r4 \<and> r4 \<le> 0.054977344804"
    using fm_box_4[of "1 * 0.5 * 0.5 * 0.5 * 0.5" a3 b3 c3 d3 e3] h3 by simp
  then obtain a4 b4 c4 d4 e4
    where s4: "iteration_step fm_parameters fm_bonds (1 * 0.5 * 0.5 * 0.5 * 0.5)
             [Fin a3, Fin b3, Fin c3, Fin d3, Fin e3] =
             Inr [Fin a4, Fin b4, Fin c4, Fin d4, Fin e4]"
      and h4: "0.081214286053 \<le> a4" "a4 \<le> 0.081214286076"
        "- 0.24614632047 \<le> b4" "b4 \<le> - 0.246146320465"
        "0.054977344798 \<le> c4" "c4 \<le> 0.054977344804"
        "0.054977344798 \<le> d4" "d4 \<le> 0.054977344804"
        "0.054977344798 \<le> e4" "e4 \<le> 0.054977344804"
    by blast
  have "\<exists>rC rF r2 r3 r4.
          iteration_step fm_parameters fm_bonds (1 * 0.5 * 0.5 * 0.5 * 0.5 * 0.5)
            [Fin a4, Fin b4, Fin c4, Fin d4, Fin e4] =
            Inr [Fin rC, Fin rF, Fin r2, Fin r3, Fin r4]
          \<and> 0.079824561207 \<le> rC \<and> rC \<le> 0.079824561237
          \<and> - 0.250500450906 \<le> rF \<and> rF \<le> - 0.2505004509
          \<and> 0.056891963223 \<le> r2 \<and> r2 \<le> 0.056891963231
          \<and> 0.056891963223 \<le> r3 \<and> r3 \<le> 0.056891963231
          \<and> 0.056891963223 \<le> r4 \<and> r4 \<le> 0.056891963231"
    using fm_box_5[of "1 * 0.5 * 0.5 * 0.5 * 0.5 * 0.5" a4 b4 c4 d4 e4] h4 by simp
  then obtain a5 b5 c5 d5 e5
    where s5: "iteration_step fm_parameters fm_bonds (1 * 0.5 * 0.5 * 0.5 * 0.5 * 0.5)
             [Fin a4, Fin b4, Fin c4, Fin d4, Fin e4] =
             Inr [Fin a5, Fin b5, Fin c5, Fin d5, Fin e5]"
      and h5: "0.079824561207 \<le> a5" "a5 \<le> 0.079824561237"
        "- 0.250500450906 \<le> b5" "b5 \<le> - 0.2505004509"
        "0.056891963223 \<le> c5" "c5 \<le> 0.056891963231"
        "0.056891963223 \<le> d5" "d5 \<le> 0.056891963231"
        "0.056891963223 \<le> e5" "e5 \<le> 0.056891963231"
    by blast
  have "\<exists>rC rF r2 r3 r4.
          iteration_step fm_parameters fm_bonds (1 * 0.5 * 0.5 * 0.5 * 0.5 * 0.5 * 0.5)
            [Fin a5, Fin b5, Fin c5, Fin d5, Fin e5] =
            Inr [Fin rC, Fin rF, Fin r2, Fin r3, Fin r4]
          \<and> 0.079153672913 \<le> rC \<and> rC \<le> 0.079153672948
          \<and> - 0.252642941713 \<le> rF \<and> rF \<le> - 0.252642941705
          \<and> 0.057829756255 \<le> r2 \<and> r2 \<le> 0.057829756264
          \<and> 0.057829756255 \<le> r3 \<and> r3 \<le> 0.057829756264
          \<and> 0.057829756255 \<le> r4 \<and> r4 \<le> 0.057829756264"
    using fm_box_6[of "1 * 0.5 * 0.5 * 0.5 * 0.5 * 0.5 * 0.5" a5 b5 c5 d5 e5] h5 by simp
  then obtain a6 b6 c6 d6 e6
    where s6: "iteration_step fm_parameters fm_bonds (1 * 0.5 * 0.5 * 0.5 * 0.5 * 0.5 * 0.5)
             [Fin a5, Fin b5, Fin c5, Fin d5, Fin e5] =
             Inr [Fin a6, Fin b6, Fin c6, Fin d6, Fin e6]"
      and h6: "0.079153672913 \<le> a6" "a6 \<le> 0.079153672948"
        "- 0.252642941713 \<le> b6" "b6 \<le> - 0.252642941705"
        "0.057829756255 \<le> c6" "c6 \<le> 0.057829756264"
        "0.057829756255 \<le> d6" "d6 \<le> 0.057829756264"
        "0.057829756255 \<le> e6" "e6 \<le> 0.057829756264"
    by blast
  have one: "iteration_loop (Suc 0) fm_parameters fm_bonds 1 ?c0 =
               Inr [Fin a1, Fin b1, Fin c1, Fin d1, Fin e1]"
    unfolding iteration_loop.simps Let_def s1 by simp
  have six: "iteration_loop (Suc (Suc (Suc (Suc (Suc (Suc 0)))))) fm_parameters fm_bonds 1 ?c0 =
               Inr [Fin a6, Fin b6, Fin c6, Fin d6, Fin e6]"
    unfolding iteration_loop.simps Let_def s1 sum.case s2 s3 s4 s5 s6 by simp
  have n1: "nat 1 = Suc 0" and n6: "nat 6 = Suc (Suc (Suc (Suc (Suc (Suc 0)))))"
    by simp_all
  have r1: "charges_close_to (1 / 10 ^ 4) (snd (partial_charges fluoromethane 1 None))
              [0.1147, - 0.1754, 0.0202, 0.0202, 0.0202]"
    unfolding fluoromethane_unfold n1 one charges_close_to_def
    using h1 by (simp add: close_to_Fin)
  have r6: "charges_close_to (1 / 10 ^ 4) (snd (partial_charges fluoromethane 6 None))
              [0.0792, - 0.2526, 0.0578, 0.0578, 0.0578]"
    unfolding fluoromethane_unfold n6 six charges_close_to_def
    using h6 by (simp add: close_to_Fin)
  from r1 r6 show ?thesis by blast
qed

end
